theory Spec2Isabelle
  imports Main "HOL-Library.Code_Target_Numeral"
begin

section \<open>JavaScript values and exceptions\<close>

text \<open>
  The values that cross the wire are the results of \<^verbatim>\<open>JSON.parse\<close>. \<open>Num n\<close> is the
  number that an integer numeral \<open>n\<close> parses to (numerals with a fraction or an
  exponent play no role below); \<open>Obj\<close> holds the own properties of an object in
  creation order.
  \<open>Undefined\<close> is the value of an absent property, of an omitted argument and of a
  function that ends without \<^verbatim>\<open>return\<close>.
\<close>

datatype jsval =
    Undefined
  | Null
  | Bool bool
  | Num int
  | Str string
  | Arr "jsval list"
  | Obj "(string \<times> jsval) list"

text \<open>
  \<^verbatim>\<open>src/errors/index.ts\<close> declares three subclasses of \<^verbatim>\<open>Error\<close>; the client also
  throws plain \<^verbatim>\<open>Error\<close>s. A \<^verbatim>\<open>TypeError\<close> is what the runtime itself throws on a
  property read of \<^verbatim>\<open>undefined\<close>/\<^verbatim>\<open>null\<close> or on a call of a non-function; its message
  depends on the engine and is not modelled.
\<close>

datatype error_class = Error | AuthenticationError | PermissionError | RecordError

datatype exn = Throw error_class string | TypeError

text \<open>Truthiness, as tested by \<^verbatim>\<open>if (v)\<close> and \<^verbatim>\<open>!v\<close>.\<close>

fun truthy :: "jsval \<Rightarrow> bool" where
  "truthy Undefined = False"
| "truthy Null = False"
| "truthy (Bool b) = b"
| "truthy (Num n) = (n \<noteq> 0)"
| "truthy (Str s) = (s \<noteq> [])"
| "truthy (Arr xs) = True"
| "truthy (Obj fs) = True"

section \<open>The event hub (\<^verbatim>\<open>src/classes/emitter.ts\<close>)\<close>

text \<open>
  A listener is a function reference; the model names it by a number and takes the
  behaviour of the listeners as a parameter \<open>beh\<close>: applied to the arguments of the
  publish, a listener transforms the state \<open>'w\<close> of the world outside the hub and
  either returns (\<open>None\<close>) or throws (\<open>Some e\<close>). Listeners that subscribe or
  unsubscribe on the hub that is calling them are outside this model.

  A \<^verbatim>\<open>Set\<close> keeps its elements in insertion order and \<^verbatim>\<open>add\<close> ignores an element it
  already has.
\<close>

type_synonym key = string
type_synonym lid = nat
type_synonym 'w listener = "jsval list \<Rightarrow> 'w \<Rightarrow> exn option \<times> 'w"

definition set_add :: "'a \<Rightarrow> 'a list \<Rightarrow> 'a list" where
  "set_add x s = (if x \<in> set s then s else s @ [x])"

text \<open>
  \<^verbatim>\<open>#events\<close> and \<^verbatim>\<open>#eventsOnce\<close> are object literals \<^verbatim>\<open>{}\<close> used as tables. The map
  holds their own properties. A read \<^verbatim>\<open>table[key]\<close> of a key that is not an own
  property goes on to \<^verbatim>\<open>Object.prototype\<close>, so for the names below it yields an
  inherited member (a function, or the prototype itself for \<^verbatim>\<open>__proto__\<close>), which
  is truthy and has neither \<^verbatim>\<open>add\<close> nor \<^verbatim>\<open>forEach\<close>.
\<close>

record emitter =
  events :: "key \<rightharpoonup> lid list"
  eventsOnce :: "key \<rightharpoonup> lid list"

definition Object_prototype_keys :: "string list" where
  "Object_prototype_keys =
     [''constructor'', ''__defineGetter__'', ''__defineSetter__'', ''hasOwnProperty'',
      ''__lookupGetter__'', ''__lookupSetter__'', ''isPrototypeOf'',
      ''propertyIsEnumerable'', ''toString'', ''valueOf'', ''__proto__'',
      ''toLocaleString'']"

datatype slot = Absent | Inherited | Own "lid list"

definition lookup :: "(key \<rightharpoonup> lid list) \<Rightarrow> key \<Rightarrow> slot" where
  "lookup tbl k =
     (case tbl k of
        Some s \<Rightarrow> Own s
      | None \<Rightarrow> if k \<in> set Object_prototype_keys then Inherited else Absent)"

definition new_Emitter :: emitter where
  "new_Emitter = \<lparr>events = Map.empty, eventsOnce = Map.empty\<rparr>"

text \<open>
  \<^verbatim>\<open>on\<close>: \<^verbatim>\<open>if (!this.#events[eventName]) this.#events[eventName] = new Set();
  this.#events[eventName]!.add(listener)\<close>. On an inherited member the test is false
  and \<^verbatim>\<open>.add\<close> is \<^verbatim>\<open>undefined\<close>: the call throws.
\<close>

definition on :: "key \<Rightarrow> lid \<Rightarrow> emitter \<Rightarrow> exn + emitter" where
  "on eventName listener e =
     (case lookup (events e) eventName of
        Absent \<Rightarrow> Inr (e\<lparr>events := (events e)(eventName \<mapsto> set_add listener [])\<rparr>)
      | Own s \<Rightarrow> Inr (e\<lparr>events := (events e)(eventName \<mapsto> set_add listener s)\<rparr>)
      | Inherited \<Rightarrow> Inl TypeError)"

definition once :: "key \<Rightarrow> lid \<Rightarrow> emitter \<Rightarrow> exn + emitter" where
  "once eventName listener e =
     (case lookup (eventsOnce e) eventName of
        Absent \<Rightarrow> Inr (e\<lparr>eventsOnce := (eventsOnce e)(eventName \<mapsto> set_add listener [])\<rparr>)
      | Own s \<Rightarrow> Inr (e\<lparr>eventsOnce := (eventsOnce e)(eventName \<mapsto> set_add listener s)\<rparr>)
      | Inherited \<Rightarrow> Inl TypeError)"

text \<open>
  \<^verbatim>\<open>forEach\<close> calls the callback on the elements in order; an exception thrown by a
  call ends the iteration and leaves \<^verbatim>\<open>forEach\<close>, since nothing catches it.
\<close>

fun forEach :: "('x \<Rightarrow> 'w \<Rightarrow> exn option \<times> 'w) \<Rightarrow> 'x list \<Rightarrow> 'w \<Rightarrow> exn option \<times> 'w" where
  "forEach f [] w = (None, w)"
| "forEach f (x # xs) w =
     (case f x w of
        (Some ex, w') \<Rightarrow> (Some ex, w')
      | (None, w') \<Rightarrow> forEach f xs w')"

text \<open>
  \<^verbatim>\<open>table[eventName]?.forEach(listener => listener.apply(this, args))\<close>: nothing
  happens when the read is \<^verbatim>\<open>undefined\<close>; an inherited member is not nullish, its
  \<^verbatim>\<open>forEach\<close> is \<^verbatim>\<open>undefined\<close>, and calling that throws.
\<close>

definition invoke_all :: "(lid \<Rightarrow> 'w listener) \<Rightarrow> slot \<Rightarrow> jsval list \<Rightarrow> 'w \<Rightarrow> exn option \<times> 'w" where
  "invoke_all beh sl args w =
     (case sl of
        Absent \<Rightarrow> (None, w)
      | Own s \<Rightarrow> forEach (\<lambda>listener. beh listener args) s w
      | Inherited \<Rightarrow> (Some TypeError, w))"

text \<open>
  \<^verbatim>\<open>emit\<close>: the persistent listeners, then the one-shot listeners, then
  \<^verbatim>\<open>delete this.#eventsOnce[eventName]\<close>. The result is the exception that left
  \<^verbatim>\<open>emit\<close>, if any, with the hub and the world as they are at that moment.
\<close>

definition emit ::
  "(lid \<Rightarrow> 'w listener) \<Rightarrow> key \<Rightarrow> jsval list \<Rightarrow> emitter \<times> 'w \<Rightarrow> exn option \<times> emitter \<times> 'w" where
  "emit beh eventName args st =
     (case st of (e, w) \<Rightarrow>
        (case invoke_all beh (lookup (events e) eventName) args w of
           (Some ex, w1) \<Rightarrow> (Some ex, e, w1)
         | (None, w1) \<Rightarrow>
             (case invoke_all beh (lookup (eventsOnce e) eventName) args w1 of
                (Some ex, w2) \<Rightarrow> (Some ex, e, w2)
              | (None, w2) \<Rightarrow>
                  (None, e\<lparr>eventsOnce := (eventsOnce e)(eventName := None)\<rparr>, w2))))"

section \<open>The client (\<^verbatim>\<open>src/client.ts\<close>)\<close>

subsection \<open>Call results and the transport handle\<close>

text \<open>
  \<^verbatim>\<open>src/types/index.ts\<close>: \<^verbatim>\<open>type Result<T> = ResultOk<T> | ResultErr\<close>, with
  \<^verbatim>\<open>ResultOk<T> = {result: T; error?: never}\<close> and
  \<^verbatim>\<open>ResultErr = {result?: never; error: Error}\<close>. Of the error only its
  \<^verbatim>\<open>message\<close> is read. \<^verbatim>\<open>res.error\<close> is an object, hence truthy, exactly in the
  second variant; \<^verbatim>\<open>res.result\<close> is \<^verbatim>\<open>undefined\<close> there.
\<close>

datatype result = ResultOk jsval | ResultErr string

fun result_of :: "result \<Rightarrow> jsval" where
  "result_of (ResultOk v) = v"
| "result_of (ResultErr m) = Undefined"

text \<open>
  Modelled from the spec: \<^verbatim>\<open>src/classes/socket.ts\<close> is not among the sources. Of the
  transport collaborator (``\<^verbatim>\<open>send(text)\<close> to transmit a serialized envelope'') the
  model keeps the envelopes handed to \<^verbatim>\<open>send\<close>, oldest first, each as the object
  that \<^verbatim>\<open>JSON.stringify\<close> is applied to.
\<close>

record socket =
  sent :: "jsval list"

definition socket_send :: "jsval \<Rightarrow> socket \<Rightarrow> socket" where
  "socket_send envelope s = s\<lparr>sent := sent s @ [envelope]\<rparr>"

text \<open>
  The private fields \<^verbatim>\<open>#ws\<close> (\<^verbatim>\<open>undefined\<close> until \<^verbatim>\<open>connect\<close> assigns it) and
  \<^verbatim>\<open>#token\<close>. The token is declared \<^verbatim>\<open>string | undefined\<close>, but \<^verbatim>\<open>signup\<close> and
  \<^verbatim>\<open>signin\<close> store \<^verbatim>\<open>res.result\<close> in it, which is whatever the peer sent.
\<close>

record client =
  ws :: "socket option"
  token :: jsval

text \<open>
  An \<^verbatim>\<open>async\<close> method is modelled by the outcome its promise settles with, \<open>Inl\<close> a
  rejection and \<open>Inr\<close> the value it resolves to, together with the client state at
  that moment. What its \<^verbatim>\<open>await\<close>s deliver comes from outside and is a parameter:
  \<open>cid\<close> is the identifier that \<^verbatim>\<open>guid()\<close> returns (\<^verbatim>\<open>src/utils/guid.ts\<close> is not
  among the sources) and \<open>res\<close> is the payload of the event published under that
  identifier, which \<^verbatim>\<open>nextEvent(id)\<close> resolves to. The promises \<^verbatim>\<open>#ws.ready\<close> and
  \<^verbatim>\<open>#attempted\<close> carry no value and are taken to resolve. One call is followed from
  its start to its settlement; what other calls do to the client in between is not
  part of the outcome.
\<close>

type_synonym 'a outcome = "(exn + 'a) \<times> client"

definition await :: "'a outcome \<Rightarrow> ('a \<Rightarrow> client \<Rightarrow> 'b outcome) \<Rightarrow> 'b outcome" where
  "await m k = (case m of (Inl ex, c) \<Rightarrow> (Inl ex, c) | (Inr a, c) \<Rightarrow> k a c)"

definition wait :: "client \<Rightarrow> unit outcome" where
  "wait c =
     (case ws c of
        None \<Rightarrow> (Inl (Throw Error ''You have to call .connect before any other method!''), c)
      | Some s \<Rightarrow> (Inr (), c))"

text \<open>
  \<^verbatim>\<open>#send\<close>. With \<^verbatim>\<open>wait = false\<close> it reads \<^verbatim>\<open>this.#ws.ready\<close> without a test of
  \<^verbatim>\<open>#ws\<close>: on \<^verbatim>\<open>undefined\<close> that read throws a \<^verbatim>\<open>TypeError\<close>.
\<close>

definition send :: "string \<Rightarrow> string \<Rightarrow> jsval list \<Rightarrow> bool \<Rightarrow> result \<Rightarrow> client \<Rightarrow> result outcome" where
  "send cid method params wt res c =
     await (if wt then wait c
            else (case ws c of None \<Rightarrow> (Inl TypeError, c) | Some s \<Rightarrow> (Inr (), c)))
       (\<lambda>_ c1.
          (case ws c1 of
             None \<Rightarrow> (Inl TypeError, c1)
           | Some s \<Rightarrow>
               (Inr res,
                c1\<lparr>ws := Some (socket_send
                   (Obj [(''id'', Str cid), (''method'', Str method), (''params'', Arr params)]) s)\<rparr>)))"

subsection \<open>The result handlers\<close>

definition outputHandlerError :: "result \<Rightarrow> error_class \<Rightarrow> exn + unit" where
  "outputHandlerError res Err =
     (case res of ResultErr message \<Rightarrow> Inl (Throw Err message) | ResultOk v \<Rightarrow> Inr ())"

text \<open>\<^verbatim>\<open>Array.isArray(res.result) && res.result.length\<close> holds of a non-empty array only.\<close>

definition outputHandlerA :: "result \<Rightarrow> error_class \<Rightarrow> string \<Rightarrow> exn + jsval" where
  "outputHandlerA res Err errormessage =
     (case result_of res of
        Arr (x # xs) \<Rightarrow> Inr x
      | _ \<Rightarrow> Inl (Throw Err errormessage))"

text \<open>
  \<^verbatim>\<open>#outputHandlerB\<close> calls \<^verbatim>\<open>#outputHandlerError(res)\<close> with the default class
  \<^verbatim>\<open>Error\<close>. In the branch of a record identifier the statement is
  \<^verbatim>\<open>this.#outputHandlerA(res, Err, errormessage);\<close> with no \<^verbatim>\<open>return\<close>: what
  \<^verbatim>\<open>#outputHandlerA\<close> returns is dropped and the function ends with \<^verbatim>\<open>undefined\<close>.
\<close>

definition outputHandlerB :: "result \<Rightarrow> string \<Rightarrow> error_class \<Rightarrow> string \<Rightarrow> exn + jsval" where
  "outputHandlerB res tid Err errormessage =
     (case outputHandlerError res Error of
        Inl ex \<Rightarrow> Inl ex
      | Inr _ \<Rightarrow>
          if CHR '':'' \<in> set tid
          then (case outputHandlerA res Err errormessage of
                  Inl ex \<Rightarrow> Inl ex
                | Inr v \<Rightarrow> Inr Undefined)
          else Inr (result_of res))"

text \<open>The common ending \<^verbatim>\<open>this.#outputHandlerError(res, Err); return res.result;\<close>.\<close>

definition checked_result :: "error_class \<Rightarrow> result \<Rightarrow> client \<Rightarrow> jsval outcome" where
  "checked_result Err res c =
     (case outputHandlerError res Err of
        Inl ex \<Rightarrow> (Inl ex, c)
      | Inr _ \<Rightarrow> (Inr (result_of res), c))"

subsection \<open>The public operations\<close>

definition ping :: "string \<Rightarrow> result \<Rightarrow> client \<Rightarrow> jsval outcome" where
  "ping cid res c = await (send cid ''ping'' [] True res c) (\<lambda>r c1. (Inr Undefined, c1))"

definition use :: "string \<Rightarrow> string \<Rightarrow> string \<Rightarrow> result \<Rightarrow> client \<Rightarrow> jsval outcome" where
  "use cid ns db res c =
     await (send cid ''use'' [Str ns, Str db] True res c) (checked_result Error)"

definition info :: "string \<Rightarrow> result \<Rightarrow> client \<Rightarrow> jsval outcome" where
  "info cid res c = await (send cid ''info'' [] True res c) (checked_result Error)"

definition signup :: "string \<Rightarrow> jsval \<Rightarrow> result \<Rightarrow> client \<Rightarrow> jsval outcome" where
  "signup cid vars res c =
     await (send cid ''signup'' [vars] True res c)
       (\<lambda>r c1.
          (case outputHandlerError r AuthenticationError of
             Inl ex \<Rightarrow> (Inl ex, c1)
           | Inr _ \<Rightarrow> (Inr (result_of r), c1\<lparr>token := result_of r\<rparr>)))"

definition signin :: "string \<Rightarrow> jsval \<Rightarrow> result \<Rightarrow> client \<Rightarrow> jsval outcome" where
  "signin cid vars res c =
     await (send cid ''signin'' [vars] True res c)
       (\<lambda>r c1.
          (case outputHandlerError r AuthenticationError of
             Inl ex \<Rightarrow> (Inl ex, c1)
           | Inr _ \<Rightarrow> (Inr (result_of r), c1\<lparr>token := result_of r\<rparr>)))"

definition invalidate :: "string \<Rightarrow> result \<Rightarrow> client \<Rightarrow> jsval outcome" where
  "invalidate cid res c =
     await (send cid ''invalidate'' [] True res c) (checked_result AuthenticationError)"

text \<open>
  \<^verbatim>\<open>authenticate\<close> assigns \<^verbatim>\<open>#token\<close> first and sends with \<^verbatim>\<open>wait = false\<close>. Its
  parameter is declared a string; \<^verbatim>\<open>#init\<close> passes it \<^verbatim>\<open>this.#token\<close>.
\<close>

definition authenticate :: "string \<Rightarrow> jsval \<Rightarrow> result \<Rightarrow> client \<Rightarrow> jsval outcome" where
  "authenticate cid tok res c =
     await (send cid ''authenticate'' [tok] False res (c\<lparr>token := tok\<rparr>))
       (checked_result AuthenticationError)"

definition live :: "string \<Rightarrow> string \<Rightarrow> result \<Rightarrow> client \<Rightarrow> jsval outcome" where
  "live cid table res c = await (send cid ''live'' [Str table] True res c) (checked_result Error)"

definition kill :: "string \<Rightarrow> string \<Rightarrow> result \<Rightarrow> client \<Rightarrow> jsval outcome" where
  "kill cid q res c = await (send cid ''kill'' [Str q] True res c) (checked_result Error)"

definition let' :: "string \<Rightarrow> string \<Rightarrow> jsval \<Rightarrow> result \<Rightarrow> client \<Rightarrow> jsval outcome" where
  "let' cid k val res c = await (send cid ''let'' [Str k, val] True res c) (checked_result Error)"

definition query :: "string \<Rightarrow> string \<Rightarrow> jsval \<Rightarrow> result \<Rightarrow> client \<Rightarrow> jsval outcome" where
  "query cid q vars res c =
     await (send cid ''query'' [Str q, vars] True res c) (checked_result Error)"

definition select :: "string \<Rightarrow> string \<Rightarrow> result \<Rightarrow> client \<Rightarrow> jsval outcome" where
  "select cid thing res c =
     await (send cid ''select'' [Str thing] True res c)
       (\<lambda>r c1. (outputHandlerB r thing RecordError (''Record not found: '' @ thing), c1))"

definition create :: "string \<Rightarrow> string \<Rightarrow> jsval \<Rightarrow> result \<Rightarrow> client \<Rightarrow> jsval outcome" where
  "create cid thing data res c =
     await (send cid ''create'' [Str thing, data] True res c)
       (\<lambda>r c1.
          (case outputHandlerError r Error of
             Inl ex \<Rightarrow> (Inl ex, c1)
           | Inr _ \<Rightarrow>
               (outputHandlerA r PermissionError (''Unable to create record: '' @ thing), c1)))"

definition update :: "string \<Rightarrow> string \<Rightarrow> jsval \<Rightarrow> result \<Rightarrow> client \<Rightarrow> jsval outcome" where
  "update cid thing data res c =
     await (send cid ''update'' [Str thing, data] True res c)
       (\<lambda>r c1. (outputHandlerB r thing PermissionError (''Unable to update record: '' @ thing), c1))"

definition change :: "string \<Rightarrow> string \<Rightarrow> jsval \<Rightarrow> result \<Rightarrow> client \<Rightarrow> jsval outcome" where
  "change cid thing data res c =
     await (send cid ''change'' [Str thing, data] True res c)
       (\<lambda>r c1. (outputHandlerB r thing PermissionError (''Unable to update record: '' @ thing), c1))"

definition modify :: "string \<Rightarrow> string \<Rightarrow> jsval \<Rightarrow> result \<Rightarrow> client \<Rightarrow> jsval outcome" where
  "modify cid thing data res c =
     await (send cid ''modify'' [Str thing, data] True res c)
       (\<lambda>r c1. (outputHandlerB r thing PermissionError (''Unable to update record: '' @ thing), c1))"

definition delete :: "string \<Rightarrow> string \<Rightarrow> result \<Rightarrow> client \<Rightarrow> jsval outcome" where
  "delete cid thing res c =
     await (send cid ''delete'' [Str thing] True res c)
       (\<lambda>r c1.
          (case outputHandlerError r Error of
             Inl ex \<Rightarrow> (Inl ex, c1)
           | Inr _ \<Rightarrow> (Inr Undefined, c1)))"

text \<open>The public RPC operations as one type, each applied to its arguments.\<close>

datatype call =
    Ping
  | Use string string
  | Info
  | Signup jsval
  | Signin jsval
  | Invalidate
  | Authenticate jsval
  | Live string
  | Kill string
  | Let string jsval
  | Query string jsval
  | Select string
  | Create string jsval
  | Update string jsval
  | Change string jsval
  | Modify string jsval
  | Delete string

fun invoke :: "call \<Rightarrow> string \<Rightarrow> result \<Rightarrow> client \<Rightarrow> jsval outcome" where
  "invoke Ping cid res c = ping cid res c"
| "invoke (Use ns db) cid res c = use cid ns db res c"
| "invoke Info cid res c = info cid res c"
| "invoke (Signup vars) cid res c = signup cid vars res c"
| "invoke (Signin vars) cid res c = signin cid vars res c"
| "invoke Invalidate cid res c = invalidate cid res c"
| "invoke (Authenticate tok) cid res c = authenticate cid tok res c"
| "invoke (Live table) cid res c = live cid table res c"
| "invoke (Kill q) cid res c = kill cid q res c"
| "invoke (Let k val) cid res c = let' cid k val res c"
| "invoke (Query q vars) cid res c = query cid q vars res c"
| "invoke (Select thing) cid res c = select cid thing res c"
| "invoke (Create thing data) cid res c = create cid thing data res c"
| "invoke (Update thing data) cid res c = update cid thing data res c"
| "invoke (Change thing data) cid res c = change cid thing data res c"
| "invoke (Modify thing data) cid res c = modify cid thing data res c"
| "invoke (Delete thing) cid res c = delete cid thing res c"

subsection \<open>Re-assertion of the token\<close>

text \<open>
  \<^verbatim>\<open>#init\<close> stores in \<^verbatim>\<open>#attempted\<close> the promise of a callback that runs later:
  \<^verbatim>\<open>if (!this.#token) return; try { await this.authenticate(this.#token) } catch (_) {}\<close>.
  The transport's \<^verbatim>\<open>open\<close> event calls \<^verbatim>\<open>#init\<close>, on the first connection and on
  every reconnection. \<open>init_callback\<close> is that callback: it reads the token when
  it runs, and the \<^verbatim>\<open>catch\<close> drops the rejection of \<^verbatim>\<open>authenticate\<close>, of which only
  the state is left.
\<close>

definition init_callback :: "string \<Rightarrow> result \<Rightarrow> client \<Rightarrow> client" where
  "init_callback cid res c =
     (if \<not> truthy (token c) then c else snd (authenticate cid (token c) res c))"

subsection \<open>Inbound messages\<close>

text \<open>
  A property read \<^verbatim>\<open>d.name\<close> of a parsed message, for the names \<^verbatim>\<open>method\<close>,
  \<^verbatim>\<open>id\<close> and \<^verbatim>\<open>params\<close>, none of which is inherited: the own property of an
  object, \<^verbatim>\<open>undefined\<close> on anything else. (On \<^verbatim>\<open>null\<close> the read throws; the handler
  below tests that first.)
\<close>

fun get :: "jsval \<Rightarrow> string \<Rightarrow> jsval" where
  "get (Obj fs) name = (case map_of fs name of Some v \<Rightarrow> v | None \<Rightarrow> Undefined)"
| "get v name = Undefined"

text \<open>
  \<^verbatim>\<open>emit(d.id, d)\<close> uses \<^verbatim>\<open>d.id\<close> as a property key, which converts it to a string.
  An array prints its elements separated by commas, \<^verbatim>\<open>null\<close> and \<^verbatim>\<open>undefined\<close> as
  nothing; an object prints as \<^verbatim>\<open>[object Object]\<close> through the inherited
  \<^verbatim>\<open>toString\<close>, and if an own property of that name hides it (a parsed value is
  never callable) the conversion throws.

  A number is a double. \<open>Num n\<close> stands for the double that \<^verbatim>\<open>JSON.parse\<close> makes of
  the integer numeral \<open>n\<close>: the nearest one, a tie going to the even significand
  (\<open>to_double\<close>, on the magnitude), and infinity once that reaches \<open>2\<^sup>1\<^sup>0\<^sup>2\<^sup>4\<close>. Its
  string has
  the fewest significant digits that still denote that double, the nearest such
  value if there are two, in full below \<open>10\<^sup>2\<^sup>1\<close> and in exponent form from there on.
\<close>

fun show_nat :: "nat \<Rightarrow> string" where
  "show_nat n =
     (if n < 10 then [char_of (48 + n)]
      else show_nat (n div 10) @ [char_of (48 + n mod 10)])"

declare show_nat.simps [simp del]

fun bit_length :: "nat \<Rightarrow> nat" where
  "bit_length n = (if n = 0 then 0 else Suc (bit_length (n div 2)))"

declare bit_length.simps [simp del]

definition to_double :: "nat \<Rightarrow> nat" where
  "to_double m =
     (if m < 2 ^ 53 then m
      else (let u = 2 ^ (bit_length m - 53); q = m div u; r = m mod u
            in if u < 2 * r \<or> (2 * r = u \<and> odd q) then (q + 1) * u else q * u))"

text \<open>
  The multiples of \<open>10\<^sup>n\<^sup>-\<^sup>k\<close> next to \<open>x\<close>, a number of \<open>n\<close> digits, that denote the
  double \<open>x\<close>: the values with \<open>k\<close> significant digits that print it.
\<close>

definition round_trips :: "nat \<Rightarrow> nat \<Rightarrow> nat list" where
  "round_trips x k =
     (let p = 10 ^ (length (show_nat x) - k); lo = (x div p) * p
      in filter (\<lambda>v. to_double v = x) [lo, lo + p])"

definition nearest :: "nat \<Rightarrow> nat \<Rightarrow> nat list \<Rightarrow> nat" where
  "nearest x p vs =
     (case vs of
        [] \<Rightarrow> x
      | [v] \<Rightarrow> v
      | lo # hi # _ \<Rightarrow>
          if x - lo < hi - x then lo
          else if hi - x < x - lo then hi
          else if even (lo div p) then lo else hi)"

definition shortest :: "nat \<Rightarrow> nat" where
  "shortest x =
     (case List.find (\<lambda>k. round_trips x k \<noteq> []) [1..<Suc (length (show_nat x))] of
        None \<Rightarrow> x
      | Some k \<Rightarrow> nearest x (10 ^ (length (show_nat x) - k)) (round_trips x k))"

definition exponent_form :: "nat \<Rightarrow> string" where
  "exponent_form v =
     (let ds = show_nat v
      in (case rev (dropWhile (\<lambda>c. c = CHR ''0'') (rev ds)) of
            [] \<Rightarrow> []
          | d # rest \<Rightarrow> d # (if rest = [] then [] else CHR ''.'' # rest))
         @ ''e+'' @ show_nat (length ds - 1))"

definition Number_toString :: "nat \<Rightarrow> string" where
  "Number_toString m =
     (let x = to_double m
      in if 2 ^ 1024 \<le> x then ''Infinity''
         else (let v = shortest x in if v < 10 ^ 21 then show_nat v else exponent_form v))"

fun ToString :: "jsval \<Rightarrow> exn + string" and join :: "jsval list \<Rightarrow> exn + string" where
  "ToString Undefined = Inr ''undefined''"
| "ToString Null = Inr ''null''"
| "ToString (Bool b) = Inr (if b then ''true'' else ''false'')"
| "ToString (Num n) =
     Inr (if n < 0 then CHR ''-'' # Number_toString (nat (- n)) else Number_toString (nat n))"
| "ToString (Str s) = Inr s"
| "ToString (Arr xs) = join xs"
| "ToString (Obj fs) =
     (if ''toString'' \<in> fst ` set fs then Inl TypeError else Inr ''[object Object]'')"
| "join [] = Inr []"
| "join (x # xs) =
     (case (if x = Undefined \<or> x = Null then Inr [] else ToString x) of
        Inl ex \<Rightarrow> Inl ex
      | Inr s \<Rightarrow>
          if xs = [] then Inr s
          else (case join xs of Inl ex \<Rightarrow> Inl ex | Inr t \<Rightarrow> Inr (s @ '','' @ t)))"

text \<open>
  The listener that \<^verbatim>\<open>connect\<close> registers for the transport's \<^verbatim>\<open>message\<close> event,
  applied to \<open>d = JSON.parse(e.data)\<close>:
  \<^verbatim>\<open>if (d.method !== "notify") return this.emit(d.id, d);
  if (d.method === "notify") return d.params.forEach(r => this.emit("notify", r))\<close>.
  Only an array has a \<^verbatim>\<open>forEach\<close> to call.
\<close>

definition on_message ::
  "(lid \<Rightarrow> 'w listener) \<Rightarrow> jsval \<Rightarrow> emitter \<times> 'w \<Rightarrow> exn option \<times> emitter \<times> 'w" where
  "on_message beh d st =
     (if d = Null \<or> d = Undefined then (Some TypeError, st)
      else if get d ''method'' \<noteq> Str ''notify''
      then (case ToString (get d ''id'') of
              Inl ex \<Rightarrow> (Some ex, st)
            | Inr k \<Rightarrow> emit beh k [d] st)
      else (case get d ''params'' of
              Arr rs \<Rightarrow> forEach (\<lambda>r. emit beh ''notify'' [r]) rs st
            | _ \<Rightarrow> (Some TypeError, st)))"

section \<open>Scripts of hub operations, and the hub as the specification describes it\<close>

datatype hub_op =
    Subscribe key lid
  | SubscribeOnce key lid
  | Publish key "jsval list"

fun run_op :: "(lid \<Rightarrow> 'w listener) \<Rightarrow> hub_op \<Rightarrow> emitter \<times> 'w \<Rightarrow> exn option \<times> emitter \<times> 'w" where
  "run_op beh (Subscribe k l) (e, w) =
     (case on k l e of Inl ex \<Rightarrow> (Some ex, e, w) | Inr e' \<Rightarrow> (None, e', w))"
| "run_op beh (SubscribeOnce k l) (e, w) =
     (case once k l e of Inl ex \<Rightarrow> (Some ex, e, w) | Inr e' \<Rightarrow> (None, e', w))"
| "run_op beh (Publish k args) (e, w) = emit beh k args (e, w)"

text \<open>A script runs its calls in order and ends at the first call that throws.\<close>

fun run_ops ::
  "(lid \<Rightarrow> 'w listener) \<Rightarrow> hub_op list \<Rightarrow> emitter \<times> 'w \<Rightarrow> exn option \<times> emitter \<times> 'w" where
  "run_ops beh [] st = (None, st)"
| "run_ops beh (x # xs) st =
     (case run_op beh x st of
        (Some ex, st') \<Rightarrow> (Some ex, st')
      | (None, st') \<Rightarrow> run_ops beh xs st')"

fun key_of :: "hub_op \<Rightarrow> key" where
  "key_of (Subscribe k l) = k"
| "key_of (SubscribeOnce k l) = k"
| "key_of (Publish k args) = k"

text \<open>A listener that only records that it was called, and with what.\<close>

definition recorder :: "lid \<Rightarrow> (lid \<times> jsval list) list listener" where
  "recorder l args w = (None, w @ [(l, args)])"

text \<open>
  The hub in the words of the specification: per key an ordered set of persistent
  listeners and an ordered set of one-shot listeners; ``\<^verbatim>\<open>publish\<close> invokes all
  persistent listeners for \<^verbatim>\<open>key\<close> in subscription (insertion) order, then all
  one-shot listeners for \<^verbatim>\<open>key\<close> in subscription order, then atomically clears the
  one-shot set for that key before returning''. A subscription puts the listener
  last in its set unless the set has it already. To invoke a listener is to let it
  act on the world; the specified hub knows no failure of a listener.
\<close>

record hub =
  persistent :: "key \<Rightarrow> lid list"
  oneshot :: "key \<Rightarrow> lid list"

definition spec_empty :: hub where
  "spec_empty = \<lparr>persistent = (\<lambda>k. []), oneshot = (\<lambda>k. [])\<rparr>"

definition subscribe_last :: "lid \<Rightarrow> lid list \<Rightarrow> lid list" where
  "subscribe_last l ls = (if l \<in> set ls then ls else ls @ [l])"

definition invoke_in_order :: "(lid \<Rightarrow> 'w listener) \<Rightarrow> lid list \<Rightarrow> jsval list \<Rightarrow> 'w \<Rightarrow> 'w" where
  "invoke_in_order beh ls args w = fold (\<lambda>l w'. snd (beh l args w')) ls w"

fun spec_step :: "(lid \<Rightarrow> 'w listener) \<Rightarrow> hub_op \<Rightarrow> hub \<times> 'w \<Rightarrow> hub \<times> 'w" where
  "spec_step beh (Subscribe k l) (h, w) =
     (h\<lparr>persistent := (persistent h)(k := subscribe_last l (persistent h k))\<rparr>, w)"
| "spec_step beh (SubscribeOnce k l) (h, w) =
     (h\<lparr>oneshot := (oneshot h)(k := subscribe_last l (oneshot h k))\<rparr>, w)"
| "spec_step beh (Publish k args) (h, w) =
     (h\<lparr>oneshot := (oneshot h)(k := [])\<rparr>,
      invoke_in_order beh (persistent h k @ oneshot h k) args w)"

fun spec_run :: "(lid \<Rightarrow> 'w listener) \<Rightarrow> hub_op list \<Rightarrow> hub \<times> 'w \<Rightarrow> hub \<times> 'w" where
  "spec_run beh [] st = st"
| "spec_run beh (x # xs) st = spec_run beh xs (spec_step beh x st)"

text \<open>What a hub of the program stands for: a key without a table entry has no listener.\<close>

definition listeners_at :: "(key \<rightharpoonup> lid list) \<Rightarrow> key \<Rightarrow> lid list" where
  "listeners_at tbl k = (case tbl k of None \<Rightarrow> [] | Some s \<Rightarrow> s)"

definition hub_of :: "emitter \<Rightarrow> hub" where
  "hub_of e = \<lparr>persistent = listeners_at (events e), oneshot = listeners_at (eventsOnce e)\<rparr>"

text \<open>
  Sample listeners for concrete runs: listener \<open>0\<close> throws, every other listener
  appends its number to a log.
\<close>

definition first_throws :: "lid \<Rightarrow> lid list listener" where
  "first_throws l args w =
     (if l = 0 then (Some (Throw Error ''boom''), w) else (None, w @ [l]))"

section \<open>The connection lifecycle: promises, re-assertion and \<^verbatim>\<open>wait\<close>\<close>

text \<open>
  The outcomes above follow one call to its settlement. Here the promises themselves
  are part of the state, so that a suspended \<^verbatim>\<open>async\<close> function can be resumed in
  whatever state the client has reached by then. Promises are numbered in the order
  of their creation, \<open>fresh\<close> being the next number; \<open>promises\<close> tells how a promise
  has settled, and a promise it does not mention is pending.

  \<open>cl\<close> holds \<^verbatim>\<open>#ws\<close> and \<^verbatim>\<open>#token\<close>, \<open>em\<close> is the hub that \<^verbatim>\<open>Surreal\<close> inherits from
  \<^verbatim>\<open>Emitter\<close>, \<open>attempted\<close> is the promise that \<^verbatim>\<open>#attempted\<close> holds, and \<open>attempts\<close>
  tells where each unfinished callback of \<^verbatim>\<open>#init\<close> stands, under the number of the
  promise that the callback settles.
\<close>

datatype settlement = Fulfilled | Rejected exn

datatype attempt = Queued | AwaitsReady nat string jsval | AwaitsResponse string

text \<open>
  Modelled from the spec: \<^verbatim>\<open>src/classes/socket.ts\<close> and \<^verbatim>\<open>src/classes/pinger.ts\<close> are
  not among the sources. Of the transport collaborator (``a \<^verbatim>\<open>ready\<close> awaitable that
  resolves once per connection-open, a \<^verbatim>\<open>status\<close> readable connection state'') the
  state keeps \<open>ready\<close>, the promise that \<^verbatim>\<open>#ws.ready\<close> is, and \<open>ws_status\<close>, with the
  connection states of the specification; of the keepalive collaborator
  (``\<^verbatim>\<open>start(tick)\<close> / \<^verbatim>\<open>stop()\<close>'') it keeps whether the cycle runs.
\<close>

datatype ConnectionState = NOT_CONNECTED | CONNECTING | CONNECTED | DISCONNECTING

record conn =
  cl :: client
  em :: emitter
  attempted :: "nat option"
  promises :: "nat \<rightharpoonup> settlement"
  fresh :: nat
  attempts :: "nat \<rightharpoonup> attempt"
  ready :: nat
  ws_status :: ConnectionState
  keepalive :: bool

text \<open>The constructor without a url: \<^verbatim>\<open>super(); this.#token = token\<close>.\<close>

definition new_Surreal :: "jsval \<Rightarrow> conn" where
  "new_Surreal tok =
     \<lparr>cl = \<lparr>ws = None, token = tok\<rparr>, em = new_Emitter, attempted = None,
      promises = Map.empty, fresh = 0, attempts = Map.empty, ready = 0,
      ws_status = NOT_CONNECTED, keepalive = False\<rparr>"

text \<open>
  \<^verbatim>\<open>connect\<close> assigns \<^verbatim>\<open>#ws = new Socket(url)\<close> and \<^verbatim>\<open>#pinger\<close>, registers its listeners
  on the transport (\<open>on_open\<close> and \<open>on_message\<close> are the ones modelled) and opens
  it; the promise it returns is that of \<^verbatim>\<open>wait()\<close>, \<open>wait_call\<close> below. Modelled
  from the spec, the new transport has a pending \<^verbatim>\<open>ready\<close> of its own and the state
  goes ``NOT_CONNECTED \<open>\<rightarrow>\<close>(connect requested)\<open>\<rightarrow>\<close> CONNECTING''.
\<close>

definition connect :: "conn \<Rightarrow> conn" where
  "connect k =
     k\<lparr>cl := (cl k)\<lparr>ws := Some \<lparr>sent = []\<rparr>\<rparr>, ready := fresh k, fresh := Suc (fresh k),
       ws_status := CONNECTING, keepalive := False\<rparr>"

text \<open>The getter \<^verbatim>\<open>status\<close>: \<^verbatim>\<open>if (!this.#ws) return NOT_CONNECTED; return this.#ws.status\<close>.\<close>

definition status :: "conn \<Rightarrow> ConnectionState" where
  "status k = (case ws (cl k) of None \<Rightarrow> NOT_CONNECTED | Some s \<Rightarrow> ws_status k)"

text \<open>
  \<^verbatim>\<open>#init\<close>: \<^verbatim>\<open>this.#attempted = Promise.resolve().then(async () => {...})\<close>. A new
  promise replaces the one that \<^verbatim>\<open>#attempted\<close> held, and its callback is queued.
\<close>

definition init :: "conn \<Rightarrow> conn" where
  "init k =
     k\<lparr>attempted := Some (fresh k), attempts := (attempts k)(fresh k \<mapsto> Queued),
       fresh := Suc (fresh k)\<rparr>"

text \<open>
  The setter \<^verbatim>\<open>token\<close>: \<^verbatim>\<open>this.#token = token;
  if (this.status !== ConnectionState.NOT_CONNECTED) this.#init()\<close>.
\<close>

definition set_token :: "jsval \<Rightarrow> conn \<Rightarrow> conn" where
  "set_token tok k =
     (let k1 = k\<lparr>cl := (cl k)\<lparr>token := tok\<rparr>\<rparr>
      in if status k1 \<noteq> NOT_CONNECTED then init k1 else k1)"

text \<open>
  The two listeners that \<^verbatim>\<open>connect\<close> registers for the transport's \<^verbatim>\<open>open\<close> event,
  in the order of their registration: \<^verbatim>\<open>this.#init()\<close>, then
  \<^verbatim>\<open>this.emit("open"); this.emit("opened"); this.#pinger.start(...)\<close>. A listener of
  the client's hub that throws ends the second one where it stands.
\<close>

definition on_open ::
  "(lid \<Rightarrow> 'w listener) \<Rightarrow> conn \<times> 'w \<Rightarrow> exn option \<times> conn \<times> 'w" where
  "on_open beh st =
     (case st of (k, w) \<Rightarrow>
        (let k1 = init k
         in (case emit beh ''open'' [] (em k1, w) of
               (Some ex, e1, w1) \<Rightarrow> (Some ex, k1\<lparr>em := e1\<rparr>, w1)
             | (None, e1, w1) \<Rightarrow>
                 (case emit beh ''opened'' [] (e1, w1) of
                    (Some ex, e2, w2) \<Rightarrow> (Some ex, k1\<lparr>em := e2\<rparr>, w2)
                  | (None, e2, w2) \<Rightarrow> (None, k1\<lparr>em := e2, keepalive := True\<rparr>, w2)))))"

text \<open>
  Modelled from the spec: the open event of the transport, whose source is absent.
  \<^verbatim>\<open>ready\<close> ``resolves once per connection-open'', the state goes ``CONNECTING
  \<open>\<rightarrow>\<close>(transport reports open)\<open>\<rightarrow>\<close> CONNECTED'', and the \<^verbatim>\<open>open\<close> notification runs
  the listeners of \<open>on_open\<close>. The event is one step of the program: what waits for
  a promise is resumed after it, never inside it.
\<close>

definition transport_open ::
  "(lid \<Rightarrow> 'w listener) \<Rightarrow> conn \<times> 'w \<Rightarrow> exn option \<times> conn \<times> 'w" where
  "transport_open beh st =
     (case st of (k, w) \<Rightarrow>
        on_open beh (k\<lparr>ws_status := CONNECTED, promises := (promises k)(ready k \<mapsto> Fulfilled)\<rparr>, w))"

text \<open>
  The callback of \<^verbatim>\<open>#init\<close>,
  \<^verbatim>\<open>if (!this.#token) return; try { await this.authenticate(this.#token) } catch (_) {}\<close>,
  in the three stretches between its suspensions. Inside the \<^verbatim>\<open>try\<close>, whatever is
  thrown is caught and the callback returns: its promise is fulfilled either way
  (\<open>swallowed\<close>).

  \<open>callback_start\<close> runs from the start to the \<^verbatim>\<open>await this.#ws.ready\<close> of \<^verbatim>\<open>#send\<close>
  (called with \<^verbatim>\<open>wait = false\<close>): the test of the token, the assignment
  \<^verbatim>\<open>this.#token = token\<close> of \<^verbatim>\<open>authenticate\<close>, the draw of the call identifier, the read
  of \<^verbatim>\<open>this.#ws.ready\<close>. \<open>callback_send\<close> resumes it when that promise has settled:
  \<^verbatim>\<open>this.#ws.send(...)\<close>, then the wait for the event of the call identifier.
  \<open>callback_settle\<close> resumes it with the payload \<open>res\<close> of that event:
  \<^verbatim>\<open>this.#outputHandlerError(res, AuthenticationError)\<close>. As in \<open>send\<close>, the
  one-shot subscription of \<^verbatim>\<open>nextEvent(id)\<close>, which the publish of that event removes
  again, is represented by the payload it delivers.
\<close>

definition swallowed :: "exn + 'a \<Rightarrow> settlement" where
  "swallowed r = (case r of Inl ex \<Rightarrow> Fulfilled | Inr v \<Rightarrow> Fulfilled)"

definition finish :: "nat \<Rightarrow> settlement \<Rightarrow> conn \<Rightarrow> conn" where
  "finish p how k = k\<lparr>promises := (promises k)(p \<mapsto> how), attempts := (attempts k)(p := None)\<rparr>"

definition callback_start :: "nat \<Rightarrow> string \<Rightarrow> conn \<Rightarrow> conn" where
  "callback_start p cid k =
     (case attempts k p of
        Some Queued \<Rightarrow>
          if \<not> truthy (token (cl k)) then finish p Fulfilled k
          else (let tok = token (cl k); k1 = k\<lparr>cl := (cl k)\<lparr>token := tok\<rparr>\<rparr>
                in (case ws (cl k1) of
                      None \<Rightarrow> finish p (swallowed (Inl TypeError :: exn + unit)) k1
                    | Some s \<Rightarrow> k1\<lparr>attempts := (attempts k1)(p \<mapsto> AwaitsReady (ready k1) cid tok)\<rparr>))
      | _ \<Rightarrow> k)"

definition callback_send :: "nat \<Rightarrow> conn \<Rightarrow> conn" where
  "callback_send p k =
     (case attempts k p of
        Some (AwaitsReady r cid tok) \<Rightarrow>
          (case promises k r of
             None \<Rightarrow> k
           | Some (Rejected ex) \<Rightarrow> finish p (swallowed (Inl ex :: exn + unit)) k
           | Some Fulfilled \<Rightarrow>
               (case ws (cl k) of
                  None \<Rightarrow> finish p (swallowed (Inl TypeError :: exn + unit)) k
                | Some s \<Rightarrow>
                    k\<lparr>cl := (cl k)\<lparr>ws := Some (socket_send
                          (Obj [(''id'', Str cid), (''method'', Str ''authenticate''),
                                (''params'', Arr [tok])]) s)\<rparr>,
                      attempts := (attempts k)(p \<mapsto> AwaitsResponse cid)\<rparr>))
      | _ \<Rightarrow> k)"

definition callback_settle :: "nat \<Rightarrow> result \<Rightarrow> conn \<Rightarrow> conn" where
  "callback_settle p res k =
     (case attempts k p of
        Some (AwaitsResponse cid) \<Rightarrow>
          finish p (swallowed (outputHandlerError res AuthenticationError)) k
      | _ \<Rightarrow> k)"

text \<open>
  \<^verbatim>\<open>wait\<close>, with its two suspensions:
  \<^verbatim>\<open>if (!this.#ws) throw new Error(...); await this.#ws.ready; await this.#attempted!\<close>.
  The call reads \<^verbatim>\<open>this.#ws.ready\<close> and waits for that promise. Resumed in a state
  where it is fulfilled, \<^verbatim>\<open>wait\<close> reads \<^verbatim>\<open>this.#attempted\<close> as it is then and waits for
  that one; \<^verbatim>\<open>await undefined\<close> goes on at once. A rejected promise throws at its
  \<^verbatim>\<open>await\<close>. \<open>wait_run\<close> resumes a waiter in each state of a list in turn, the states
  that the client goes through in the meantime.
\<close>

datatype waiter = Wait_ready nat | Wait_attempted "nat option" | Wait_resolved | Wait_rejected exn

definition wait_call :: "conn \<Rightarrow> waiter" where
  "wait_call k =
     (case ws (cl k) of
        None \<Rightarrow> Wait_rejected (Throw Error ''You have to call .connect before any other method!'')
      | Some s \<Rightarrow> Wait_ready (ready k))"

fun wait_resume :: "waiter \<Rightarrow> conn \<Rightarrow> waiter" where
  "wait_resume (Wait_ready r) k =
     (case promises k r of
        None \<Rightarrow> Wait_ready r
      | Some Fulfilled \<Rightarrow> Wait_attempted (attempted k)
      | Some (Rejected ex) \<Rightarrow> Wait_rejected ex)"
| "wait_resume (Wait_attempted None) k = Wait_resolved"
| "wait_resume (Wait_attempted (Some p)) k =
     (case promises k p of
        None \<Rightarrow> Wait_attempted (Some p)
      | Some Fulfilled \<Rightarrow> Wait_resolved
      | Some (Rejected ex) \<Rightarrow> Wait_rejected ex)"
| "wait_resume Wait_resolved k = Wait_resolved"
| "wait_resume (Wait_rejected ex) k = Wait_rejected ex"

fun wait_run :: "waiter \<Rightarrow> conn list \<Rightarrow> waiter" where
  "wait_run wt [] = wt"
| "wait_run wt (k # ks) = wait_run (wait_resume wt k) ks"

text \<open>
  The numbering of the promises is sound when the promise of \<^verbatim>\<open>#ws.ready\<close> has been
  created and no promise yet to be created has settled or has a callback.
\<close>

definition well_formed :: "conn \<Rightarrow> bool" where
  "well_formed k =
     (ready k < fresh k \<and> (\<forall>q. fresh k \<le> q \<longrightarrow> promises k q = None \<and> attempts k q = None))"

text \<open>
  Sample states. A client made with the token \<^verbatim>\<open>"a"\<close> and connected, after the open
  event of its transport; then with the attempt of that event (promise \<open>1\<close>) waiting
  for the answer to its \<^verbatim>\<open>authenticate\<close> call; then either with that call rejected by
  the peer, or with the token cleared by an assignment of \<^verbatim>\<open>undefined\<close> (promise
  \<open>2\<close>) while the call is still unanswered. And a client made without a token,
  connected, after the open event and the run of its attempt.
\<close>

definition after_open :: conn where
  "after_open = fst (snd (transport_open recorder (connect (new_Surreal (Str ''a'')), [])))"

definition attempt_in_flight :: conn where
  "attempt_in_flight = callback_send 1 (callback_start 1 ''g1'' after_open)"

definition attempt_rejected :: conn where
  "attempt_rejected = callback_settle 1 (ResultErr ''bad'') attempt_in_flight"

definition token_cleared :: conn where
  "token_cleared = callback_start 2 ''g2'' (set_token Undefined attempt_in_flight)"

definition opened_without_token :: conn where
  "opened_without_token =
     callback_start 1 ''g1''
       (fst (snd (transport_open recorder (connect (new_Surreal Undefined), []))))"

section \<open>Outcomes of sending\<close>

lemma send_connected:
  "ws c = Some s \<Longrightarrow>
   send cid method params wt res c =
     (Inr res, c\<lparr>ws := Some (socket_send
        (Obj [(''id'', Str cid), (''method'', Str method), (''params'', Arr params)]) s)\<rparr>)"
  by (simp add: send_def await_def wait_def)

lemma send_wait_unconnected:
  "ws c = None \<Longrightarrow>
   send cid method params True res c =
     (Inl (Throw Error ''You have to call .connect before any other method!''), c)"
  by (simp add: send_def await_def wait_def)

lemma send_nowait_unconnected:
  "ws c = None \<Longrightarrow> send cid method params False res c = (Inl TypeError, c)"
  by (simp add: send_def await_def)

section \<open>Calls before \<^verbatim>\<open>connect\<close>\<close>

text \<open>
  Every operation that sends with \<^verbatim>\<open>wait = true\<close> goes through \<^verbatim>\<open>wait()\<close>, which
  rejects with the usage error while \<^verbatim>\<open>#ws\<close> is unset.
\<close>

lemma usage_error_before_connect:
  "ws c = None \<Longrightarrow> (\<forall>tok. call \<noteq> Authenticate tok) \<Longrightarrow>
   fst (invoke call cid res c) =
     Inl (Throw Error ''You have to call .connect before any other method!'')"
  by (cases call)
     (simp_all add: send_wait_unconnected await_def ping_def use_def info_def signup_def
        signin_def invalidate_def live_def kill_def let'_def query_def select_def create_def
        update_def change_def modify_def delete_def)

lemma authenticate_before_connect:
  "ws c = None \<Longrightarrow> authenticate cid tok res c = (Inl TypeError, c\<lparr>token := tok\<rparr>)"
  by (simp add: authenticate_def send_nowait_unconnected await_def)

text \<open>
  C4. Every public RPC operation invoked before \<^verbatim>\<open>connect\<close> is to fail with the usage
  error ``You have to call .connect before any other method!''. \<^verbatim>\<open>authenticate\<close> does
  not: on a fresh client, \<^verbatim>\<open>authenticate("tok")\<close> stores the token and is rejected
  with the \<^verbatim>\<open>TypeError\<close> of the read \<^verbatim>\<open>this.#ws.ready\<close> on \<^verbatim>\<open>undefined\<close>. The sixteen
  other operations behave as claimed (\<open>usage_error_before_connect\<close>); for
  \<^verbatim>\<open>authenticate\<close> the outcome is the same whatever the token and the state of a
  client without transport (\<open>authenticate_before_connect\<close>).
\<close>

theorem authenticate_before_connect_type_error:
  "authenticate ''g1'' (Str ''tok'') (ResultOk Null) \<lparr>ws = None, token = Undefined\<rparr> =
     (Inl TypeError, \<lparr>ws = None, token = Str ''tok''\<rparr>)"
  by (simp add: authenticate_def send_nowait_unconnected await_def)

section \<open>Shaping of results\<close>

lemma select_outcome:
  "ws c = Some s \<Longrightarrow>
   fst (select cid thing res c) =
     outputHandlerB res thing RecordError (''Record not found: '' @ thing)"
  by (simp add: select_def send_connected await_def)

lemma select_record_empty:
  "ws c = Some s \<Longrightarrow> CHR '':'' \<in> set t \<Longrightarrow>
   fst (select cid t (ResultOk (Arr [])) c) = Inl (Throw RecordError (''Record not found: '' @ t))"
  by (simp add: select_outcome outputHandlerB_def outputHandlerError_def outputHandlerA_def)

lemma select_record_nonempty:
  "ws c = Some s \<Longrightarrow> CHR '':'' \<in> set t \<Longrightarrow>
   fst (select cid t (ResultOk (Arr (x # xs))) c) = Inr Undefined"
  by (simp add: select_outcome outputHandlerB_def outputHandlerError_def outputHandlerA_def)

text \<open>
  C1. \<^verbatim>\<open>select\<close> of a record identifier is to return the single record of a
  one-element result and to fail with a \<^verbatim>\<open>RecordError\<close> naming the target on an empty
  result. The second half holds (\<open>select_record_empty\<close>). The first does not:
  \<^verbatim>\<open>select("person:1")\<close> answered with the one-element result
  \<^verbatim>\<open>[{id: "person:1"}]\<close> resolves to \<^verbatim>\<open>undefined\<close>, because \<^verbatim>\<open>#outputHandlerB\<close> drops
  what \<^verbatim>\<open>#outputHandlerA\<close> returns.
\<close>

theorem select_record_returns_undefined:
  "fst (select ''g1'' ''person:1'' (ResultOk (Arr [Obj [(''id'', Str ''person:1'')]]))
          \<lparr>ws = Some \<lparr>sent = []\<rparr>, token = Undefined\<rparr>) = Inr Undefined"
  by (simp add: select_def send_connected await_def outputHandlerB_def outputHandlerError_def
        outputHandlerA_def)

text \<open>
  C5, as claimed: \<^verbatim>\<open>select\<close> never returns a sequence, whatever the form of the
  target. On the table name \<^verbatim>\<open>person\<close> it returns the two-element result as it is.
\<close>

theorem select_table_returns_sequence:
  "fst (select ''g1'' ''person'' (ResultOk (Arr [Num 1, Num 2]))
          \<lparr>ws = Some \<lparr>sent = []\<rparr>, token = Undefined\<rparr>) = Inr (Arr [Num 1, Num 2])"
  by (simp add: select_outcome outputHandlerB_def outputHandlerError_def)

text \<open>
  C5, amended: \<^verbatim>\<open>select\<close> dispatches on the form of the target. For a table name
  (no \<^verbatim>\<open>:\<close>) it resolves to the peer's result unmodified, a sequence included and
  an empty one too; for a record identifier it fails on an empty sequence with the
  \<^verbatim>\<open>RecordError\<close> ``Record not found: '' followed by the target.
\<close>

theorem select_dispatch:
  assumes "ws c = Some s" and "CHR '':'' \<notin> set t" and "CHR '':'' \<in> set r"
  shows "fst (select cid t (ResultOk v) c) = Inr v \<and>
         fst (select cid r (ResultOk (Arr [])) c) =
           Inl (Throw RecordError (''Record not found: '' @ r))"
  using assms
  by (simp add: select_outcome outputHandlerB_def outputHandlerError_def outputHandlerA_def)

theorem select_dispatch_witness:
  "ws \<lparr>ws = Some \<lparr>sent = []\<rparr>, token = Undefined\<rparr> = Some \<lparr>sent = []\<rparr> \<and>
   CHR '':'' \<notin> set ''person'' \<and> CHR '':'' \<in> set ''person:1'' \<and>
   fst (select ''g1'' ''person'' (ResultOk (Arr [])) \<lparr>ws = Some \<lparr>sent = []\<rparr>, token = Undefined\<rparr>)
     = Inr (Arr []) \<and>
   fst (select ''g1'' ''person:1'' (ResultOk (Arr [])) \<lparr>ws = Some \<lparr>sent = []\<rparr>, token = Undefined\<rparr>)
     = Inl (Throw RecordError ''Record not found: person:1'')"
  using select_dispatch [of "\<lparr>ws = Some \<lparr>sent = []\<rparr>, token = Undefined\<rparr>" "\<lparr>sent = []\<rparr>"
      "''person''" "''person:1''" "''g1''" "Arr []"]
  by simp

text \<open>
  C2, as claimed: a record-mutating operation answered with the error variant fails
  with a \<^verbatim>\<open>PermissionError\<close>. \<^verbatim>\<open>delete("person:1")\<close> answered with the error ``denied''
  fails with a plain \<^verbatim>\<open>Error\<close>.
\<close>

theorem delete_error_not_permission_error:
  "fst (delete ''g1'' ''person:1'' (ResultErr ''denied'')
          \<lparr>ws = Some \<lparr>sent = []\<rparr>, token = Undefined\<rparr>) = Inl (Throw Error ''denied'') \<and>
   fst (delete ''g1'' ''person:1'' (ResultErr ''denied'')
          \<lparr>ws = Some \<lparr>sent = []\<rparr>, token = Undefined\<rparr>) \<noteq> Inl (Throw PermissionError ''denied'')"
  by (simp add: delete_def send_connected await_def outputHandlerError_def)

text \<open>
  C2, amended: on a connected client, each of \<^verbatim>\<open>create\<close>, \<^verbatim>\<open>update\<close>, \<^verbatim>\<open>change\<close>,
  \<^verbatim>\<open>modify\<close> and \<^verbatim>\<open>delete\<close> answered with the error variant fails with a plain
  \<^verbatim>\<open>Error\<close> that carries the peer's message.
\<close>

theorem mutation_error_is_generic:
  assumes "ws c = Some s"
  shows "fst (create cid thing data (ResultErr m) c) = Inl (Throw Error m) \<and>
         fst (update cid thing data (ResultErr m) c) = Inl (Throw Error m) \<and>
         fst (change cid thing data (ResultErr m) c) = Inl (Throw Error m) \<and>
         fst (modify cid thing data (ResultErr m) c) = Inl (Throw Error m) \<and>
         fst (delete cid thing (ResultErr m) c) = Inl (Throw Error m)"
  using assms
  by (simp add: create_def update_def change_def modify_def delete_def send_connected await_def
        outputHandlerB_def outputHandlerError_def)

theorem mutation_error_is_generic_witness:
  "ws \<lparr>ws = Some \<lparr>sent = []\<rparr>, token = Undefined\<rparr> = Some \<lparr>sent = []\<rparr> \<and>
   fst (create ''g1'' ''person:1'' Undefined (ResultErr ''denied'')
          \<lparr>ws = Some \<lparr>sent = []\<rparr>, token = Undefined\<rparr>) = Inl (Throw Error ''denied'') \<and>
   fst (update ''g1'' ''person:1'' Undefined (ResultErr ''denied'')
          \<lparr>ws = Some \<lparr>sent = []\<rparr>, token = Undefined\<rparr>) = Inl (Throw Error ''denied'')"
  using mutation_error_is_generic [of "\<lparr>ws = Some \<lparr>sent = []\<rparr>, token = Undefined\<rparr>"
      "\<lparr>sent = []\<rparr>" "''g1''" "''person:1''" Undefined "''denied''"]
  by simp

section \<open>The token after authentication calls\<close>

text \<open>
  C9, as claimed: for every token, also the empty string, a reconnect after a rejected
  \<^verbatim>\<open>authenticate(t)\<close> re-asserts with \<open>t\<close>. After \<^verbatim>\<open>authenticate("")\<close> has been
  rejected the stored token is the empty string, which is falsy: the callback of
  \<^verbatim>\<open>#init\<close> returns at \<^verbatim>\<open>if (!this.#token) return\<close> and sends nothing. The only
  envelope on the transport is the one of the rejected call.
\<close>

theorem empty_token_not_reasserted:
  "token (snd (authenticate ''g1'' (Str []) (ResultErr ''bad'')
          \<lparr>ws = Some \<lparr>sent = []\<rparr>, token = Undefined\<rparr>)) = Str [] \<and>
   ws (init_callback ''g2'' (ResultOk Null)
         (snd (authenticate ''g1'' (Str []) (ResultErr ''bad'')
            \<lparr>ws = Some \<lparr>sent = []\<rparr>, token = Undefined\<rparr>))) =
     Some \<lparr>sent = [Obj [(''id'', Str ''g1''), (''method'', Str ''authenticate''),
                        (''params'', Arr [Str []])]]\<rparr>"
  by (simp add: authenticate_def init_callback_def send_connected
        await_def checked_result_def outputHandlerError_def socket_send_def)

text \<open>
  C9, amended: for every token \<open>t\<close>, once \<^verbatim>\<open>authenticate(t)\<close> has settled the stored
  token is \<open>t\<close>, whatever the peer answered and even when nothing could be sent; on
  a connected client the error variant rejects the call with an
  \<^verbatim>\<open>AuthenticationError\<close> that carries the peer's message, and the token stays. If
  \<open>t\<close> is not empty, the re-assertion that a later \<^verbatim>\<open>open\<close> event starts sends
  \<^verbatim>\<open>authenticate\<close> with the rejected token.
\<close>

theorem authenticate_keeps_token:
  "token (snd (authenticate cid (Str t) res c)) = Str t \<and>
   (ws c = Some s \<longrightarrow>
      fst (authenticate cid (Str t) (ResultErr m) c) = Inl (Throw AuthenticationError m)) \<and>
   (ws c = Some s \<longrightarrow> t \<noteq> [] \<longrightarrow>
      ws (init_callback cid' res' (snd (authenticate cid (Str t) (ResultErr m) c))) =
        Some (s\<lparr>sent := sent s @
          [Obj [(''id'', Str cid), (''method'', Str ''authenticate''), (''params'', Arr [Str t])],
           Obj [(''id'', Str cid'), (''method'', Str ''authenticate''), (''params'', Arr [Str t])]]\<rparr>))"
  by (cases "ws c")
     (simp_all add: authenticate_def init_callback_def send_connected send_nowait_unconnected
        await_def checked_result_def outputHandlerError_def socket_send_def split: result.splits)

theorem authenticate_keeps_token_witness:
  "token (snd (authenticate ''g1'' (Str ''jwt'') (ResultErr ''bad'')
          \<lparr>ws = Some \<lparr>sent = []\<rparr>, token = Undefined\<rparr>)) = Str ''jwt'' \<and>
   ws \<lparr>ws = Some \<lparr>sent = []\<rparr>, token = Undefined\<rparr> = Some \<lparr>sent = []\<rparr> \<and> ''jwt'' \<noteq> [] \<and>
   fst (authenticate ''g1'' (Str ''jwt'') (ResultErr ''bad'')
          \<lparr>ws = Some \<lparr>sent = []\<rparr>, token = Undefined\<rparr>) = Inl (Throw AuthenticationError ''bad'') \<and>
   ws (init_callback ''g2'' (ResultOk Null)
         (snd (authenticate ''g1'' (Str ''jwt'') (ResultErr ''bad'')
            \<lparr>ws = Some \<lparr>sent = []\<rparr>, token = Undefined\<rparr>))) =
     Some \<lparr>sent =
       [Obj [(''id'', Str ''g1''), (''method'', Str ''authenticate''), (''params'', Arr [Str ''jwt''])],
        Obj [(''id'', Str ''g2''), (''method'', Str ''authenticate''), (''params'', Arr [Str ''jwt''])]]\<rparr>"
  using authenticate_keeps_token [of "''g1''" "''jwt''" "ResultErr ''bad''"
      "\<lparr>ws = Some \<lparr>sent = []\<rparr>, token = Undefined\<rparr>" "\<lparr>sent = []\<rparr>" "''bad''" "''g2''" "ResultOk Null"]
  by simp

text \<open>
  C10. On a connected client, a \<^verbatim>\<open>signin\<close> or \<^verbatim>\<open>signup\<close> that the peer answers with
  the result \<open>t\<close> resolves to \<open>t\<close> and leaves \<open>t\<close> as the stored token, whatever the
  token was before. The re-assertion started by a later \<^verbatim>\<open>open\<close> event then reads
  that token: what it sends, if \<open>t\<close> is truthy, is \<^verbatim>\<open>authenticate\<close> with \<open>t\<close>.
\<close>

theorem signin_signup_store_token:
  assumes "ws c = Some s"
  shows "fst (signin cid vars (ResultOk t) c) = Inr t \<and>
         token (snd (signin cid vars (ResultOk t) c)) = t \<and>
         ws (init_callback cid' res' (snd (signin cid vars (ResultOk t) c))) =
           Some (s\<lparr>sent := sent s @
             [Obj [(''id'', Str cid), (''method'', Str ''signin''), (''params'', Arr [vars])]] @
             (if truthy t
              then [Obj [(''id'', Str cid'), (''method'', Str ''authenticate''), (''params'', Arr [t])]]
              else [])\<rparr>) \<and>
         fst (signup cid vars (ResultOk t) c) = Inr t \<and>
         token (snd (signup cid vars (ResultOk t) c)) = t \<and>
         ws (init_callback cid' res' (snd (signup cid vars (ResultOk t) c))) =
           Some (s\<lparr>sent := sent s @
             [Obj [(''id'', Str cid), (''method'', Str ''signup''), (''params'', Arr [vars])]] @
             (if truthy t
              then [Obj [(''id'', Str cid'), (''method'', Str ''authenticate''), (''params'', Arr [t])]]
              else [])\<rparr>)"
  using assms
  by (simp add: signin_def signup_def authenticate_def init_callback_def send_connected
        await_def checked_result_def outputHandlerError_def socket_send_def split: result.splits)

theorem signin_signup_store_token_witness:
  "ws \<lparr>ws = Some \<lparr>sent = []\<rparr>, token = Str ''old''\<rparr> = Some \<lparr>sent = []\<rparr> \<and>
   fst (signin ''g1'' (Obj [(''user'', Str ''root''), (''pass'', Str ''root'')]) (ResultOk (Str ''jwt''))
          \<lparr>ws = Some \<lparr>sent = []\<rparr>, token = Str ''old''\<rparr>) = Inr (Str ''jwt'') \<and>
   token (snd (signin ''g1'' (Obj [(''user'', Str ''root''), (''pass'', Str ''root'')])
          (ResultOk (Str ''jwt'')) \<lparr>ws = Some \<lparr>sent = []\<rparr>, token = Str ''old''\<rparr>)) = Str ''jwt'' \<and>
   ws (init_callback ''g2'' (ResultOk Null)
         (snd (signin ''g1'' (Obj [(''user'', Str ''root''), (''pass'', Str ''root'')])
            (ResultOk (Str ''jwt'')) \<lparr>ws = Some \<lparr>sent = []\<rparr>, token = Str ''old''\<rparr>))) =
     Some \<lparr>sent =
       [Obj [(''id'', Str ''g1''), (''method'', Str ''signin''),
             (''params'', Arr [Obj [(''user'', Str ''root''), (''pass'', Str ''root'')]])],
        Obj [(''id'', Str ''g2''), (''method'', Str ''authenticate''), (''params'', Arr [Str ''jwt''])]]\<rparr>"
  using signin_signup_store_token [of "\<lparr>ws = Some \<lparr>sent = []\<rparr>, token = Str ''old''\<rparr>"
      "\<lparr>sent = []\<rparr>" "''g1''" "Obj [(''user'', Str ''root''), (''pass'', Str ''root'')]"
      "Str ''jwt''" "''g2''" "ResultOk Null"]
  by simp

section \<open>Publishing\<close>

lemma forEach_append:
  "forEach f (xs @ ys) w =
     (case forEach f xs w of (Some ex, w') \<Rightarrow> (Some ex, w') | (None, w') \<Rightarrow> forEach f ys w')"
  by (induction xs arbitrary: w) (auto split: prod.splits option.splits)

lemma forEach_stops:
  "forEach f pre w = (None, w1) \<Longrightarrow> f x w1 = (Some ex, w2) \<Longrightarrow>
   forEach f (pre @ x # post) w = (Some ex, w2)"
  by (simp add: forEach_append)

lemma invoke_all_own_key:
  "k \<notin> set Object_prototype_keys \<Longrightarrow>
   invoke_all beh (lookup tbl k) args w = forEach (\<lambda>l. beh l args) (listeners_at tbl k) w"
  by (simp add: lookup_def invoke_all_def listeners_at_def split: option.splits)

text \<open>
  For a key that names no inherited member, \<^verbatim>\<open>emit\<close> is one pass over the persistent
  listeners followed by the one-shot listeners; the one-shot entry goes if and only
  if the pass comes to its end.
\<close>

lemma emit_forEach:
  assumes "k \<notin> set Object_prototype_keys"
  shows "emit beh k args (e, w) =
     (case forEach (\<lambda>l. beh l args) (listeners_at (events e) k @ listeners_at (eventsOnce e) k) w of
        (Some ex, w') \<Rightarrow> (Some ex, e, w')
      | (None, w') \<Rightarrow> (None, e\<lparr>eventsOnce := (eventsOnce e)(k := None)\<rparr>, w'))"
  using assms
  by (simp add: emit_def invoke_all_own_key forEach_append split: prod.splits option.splits)

lemma emit_returns_state:
  "emit beh k args (e, w) = (None, e', w') \<Longrightarrow>
   e' = e\<lparr>eventsOnce := (eventsOnce e)(k := None)\<rparr>"
  by (auto simp: emit_def split: prod.splits option.splits)

lemma emit_no_listener:
  "events e k = None \<Longrightarrow> eventsOnce e k = None \<Longrightarrow> k \<notin> set Object_prototype_keys \<Longrightarrow>
   emit beh k args (e, w) = (None, e, w)"
proof -
  assume a: "events e k = None" "eventsOnce e k = None" "k \<notin> set Object_prototype_keys"
  from a(2) have "(eventsOnce e)(k := None) = eventsOnce e" by (simp add: fun_eq_iff)
  with a show ?thesis by (simp add: emit_forEach listeners_at_def)
qed

lemma emit_inherited:
  "events e k = None \<Longrightarrow> k \<in> set Object_prototype_keys \<Longrightarrow>
   emit beh k args (e, w) = (Some TypeError, e, w)"
  by (simp add: emit_def lookup_def invoke_all_def)

text \<open>
  A pending call is a one-shot listener under the identifier of the call. A publish
  under that identifier invokes it and removes it; no other key is touched.
\<close>

lemma emit_resolves_pending_call:
  "k \<notin> set Object_prototype_keys \<Longrightarrow> events e k = None \<Longrightarrow> eventsOnce e k = Some [l] \<Longrightarrow>
   beh l args w = (None, w') \<Longrightarrow>
   emit beh k args (e, w) = (None, e\<lparr>eventsOnce := (eventsOnce e)(k := None)\<rparr>, w')"
  by (simp add: emit_forEach listeners_at_def)

text \<open>
  C3, as claimed: when a listener throws, the listeners registered after it still run
  and \<^verbatim>\<open>emit\<close> returns to the publisher. With listener \<open>0\<close> (which throws) registered
  before listener \<open>1\<close> (which logs), the publish ends with the exception of
  listener \<open>0\<close> and an empty log.
\<close>

theorem throwing_listener_aborts_publish:
  "fst (run_ops first_throws [Subscribe ''ev'' 0, Subscribe ''ev'' 1, Publish ''ev'' []]
          (new_Emitter, [])) = Some (Throw Error ''boom'') \<and>
   snd (snd (run_ops first_throws [Subscribe ''ev'' 0, Subscribe ''ev'' 1, Publish ''ev'' []]
          (new_Emitter, []))) = []"
  by (simp add: on_def emit_def invoke_all_def lookup_def Object_prototype_keys_def
      new_Emitter_def set_add_def first_throws_def)

text \<open>
  C3, amended: for every key that names no inherited member and every publish to it,
  the listeners run in order, the persistent ones and then the one-shot ones, up to
  the first that throws. The listeners registered after that one do not run for this
  publish, its exception leaves \<^verbatim>\<open>emit\<close> to the publisher, and the hub is as it was,
  its one-shot set included.
\<close>

theorem emit_stops_at_throwing_listener:
  assumes "k \<notin> set Object_prototype_keys"
    and "listeners_at (events e) k @ listeners_at (eventsOnce e) k = pre @ l # post"
    and "forEach (\<lambda>x. beh x args) pre w = (None, w1)"
    and "beh l args w1 = (Some ex, w2)"
  shows "emit beh k args (e, w) = (Some ex, e, w2)"
  using assms by (simp add: emit_forEach forEach_stops)

theorem emit_stops_at_throwing_listener_witness:
  "''ev'' \<notin> set Object_prototype_keys \<and>
   listeners_at (events \<lparr>events = [''ev'' \<mapsto> [1, 0, 2]], eventsOnce = [''ev'' \<mapsto> [3]]\<rparr>) ''ev'' @
   listeners_at (eventsOnce \<lparr>events = [''ev'' \<mapsto> [1, 0, 2]], eventsOnce = [''ev'' \<mapsto> [3]]\<rparr>) ''ev''
     = [1] @ 0 # [2, 3] \<and>
   forEach (\<lambda>x. first_throws x []) [1] [] = (None, [1]) \<and>
   first_throws 0 [] [1] = (Some (Throw Error ''boom''), [1]) \<and>
   emit first_throws ''ev'' []
     (\<lparr>events = [''ev'' \<mapsto> [1, 0, 2]], eventsOnce = [''ev'' \<mapsto> [3]]\<rparr>, []) =
     (Some (Throw Error ''boom''),
      \<lparr>events = [''ev'' \<mapsto> [1, 0, 2]], eventsOnce = [''ev'' \<mapsto> [3]]\<rparr>, [1])"
  using emit_stops_at_throwing_listener [of "''ev''"
      "\<lparr>events = [''ev'' \<mapsto> [1, 0, 2]], eventsOnce = [''ev'' \<mapsto> [3]]\<rparr>"
      "[1]" 0 "[2, 3]" first_throws "[]" "[]" "[1]" "Throw Error ''boom''" "[1]"]
  by (simp add: Object_prototype_keys_def listeners_at_def first_throws_def)

section \<open>The hub against its specification\<close>

lemma forEach_no_throw:
  "\<forall>l args w. fst (beh l args w) = None \<Longrightarrow>
   forEach (\<lambda>l. beh l args) ls w = (None, invoke_in_order beh ls args w)"
proof (induction ls arbitrary: w)
  case Nil
  then show ?case by (simp add: invoke_in_order_def)
next
  case (Cons l ls)
  from Cons.prems have "fst (beh l args w) = None" by simp
  then obtain w1 where b: "beh l args w = (None, w1)" by (cases "beh l args w") auto
  with Cons.IH [OF Cons.prems, of w1] show ?case by (simp add: invoke_in_order_def)
qed

lemma forEach_recorder:
  "forEach (\<lambda>l. recorder l args) s w = (None, w @ map (\<lambda>l. (l, args)) s)"
  by (induction s arbitrary: w) (simp_all add: recorder_def)

lemma run_op_refines:
  assumes "\<forall>l args w. fst (beh l args w) = None" and "key_of x \<notin> set Object_prototype_keys"
  shows "fst (run_op beh x (e, w)) = None \<and>
         spec_step beh x (hub_of e, w) =
           (hub_of (fst (snd (run_op beh x (e, w)))), snd (snd (run_op beh x (e, w))))"
proof (cases x)
  case (Subscribe k l)
  with assms(2) show ?thesis
    by (auto simp: on_def lookup_def hub_of_def listeners_at_def fun_eq_iff set_add_def
        subscribe_last_def split: option.splits)
next
  case (SubscribeOnce k l)
  with assms(2) show ?thesis
    by (auto simp: once_def lookup_def hub_of_def listeners_at_def fun_eq_iff set_add_def
        subscribe_last_def split: option.splits)
next
  case (Publish k args)
  with assms(2) have k: "k \<notin> set Object_prototype_keys" by simp
  show ?thesis
    unfolding Publish
    by (simp add: emit_forEach [OF k] forEach_no_throw [OF assms(1)] hub_of_def fun_eq_iff)
       (simp add: listeners_at_def)
qed

lemma run_ops_refines:
  assumes "\<forall>l args w. fst (beh l args w) = None"
  shows "set (map key_of ops) \<inter> set Object_prototype_keys = {} \<Longrightarrow>
         fst (run_ops beh ops (e, w)) = None \<and>
         spec_run beh ops (hub_of e, w) =
           (hub_of (fst (snd (run_ops beh ops (e, w)))), snd (snd (run_ops beh ops (e, w))))"
proof (induction ops arbitrary: e w)
  case Nil
  then show ?case by simp
next
  case (Cons x xs)
  from Cons.prems have kx: "key_of x \<notin> set Object_prototype_keys"
    and kxs: "set (map key_of xs) \<inter> set Object_prototype_keys = {}" by auto
  obtain r e1 w1 where r: "run_op beh x (e, w) = (r, e1, w1)"
    by (cases "run_op beh x (e, w)") auto
  from run_op_refines [OF assms kx, of e w] r
  have r0: "r = None" and s: "spec_step beh x (hub_of e, w) = (hub_of e1, w1)" by simp_all
  from Cons.IH [OF kxs, of e1 w1] r r0 s show ?case by simp
qed

lemma hub_of_new: "hub_of new_Emitter = spec_empty"
  by (simp add: hub_of_def new_Emitter_def spec_empty_def listeners_at_def fun_eq_iff)

lemma subscribe_last_distinct: "distinct s \<Longrightarrow> distinct (subscribe_last x s)"
  by (simp add: subscribe_last_def)

lemma spec_step_distinct:
  "\<forall>k. distinct (persistent (fst st) k) \<and> distinct (oneshot (fst st) k) \<Longrightarrow>
   distinct (persistent (fst (spec_step beh x st)) k) \<and>
   distinct (oneshot (fst (spec_step beh x st)) k)"
  by (cases x; cases st) (simp_all add: subscribe_last_distinct)

lemma spec_run_distinct:
  "\<forall>k. distinct (persistent (fst st) k) \<and> distinct (oneshot (fst st) k) \<Longrightarrow>
   distinct (persistent (fst (spec_run beh ops st)) k) \<and>
   distinct (oneshot (fst (spec_run beh ops st)) k)"
proof (induction ops arbitrary: st)
  case Nil
  then show ?case by simp
next
  case (Cons x xs)
  from Cons.prems have "\<forall>k. distinct (persistent (fst (spec_step beh x st)) k) \<and>
      distinct (oneshot (fst (spec_step beh x st)) k)"
    using spec_step_distinct [of st beh x] by blast
  from Cons.IH [OF this] show ?case by simp
qed

text \<open>
  From any hub, with listeners that return: a one-shot subscription followed by two
  publishes to its key. The first publish invokes the persistent listeners and then
  the one-shot ones, the new one among them; the second invokes the persistent
  listeners only.
\<close>

lemma one_shot_fires_on_first_publish_only:
  assumes "\<forall>l args w. fst (beh l args w) = None" and "k \<notin> set Object_prototype_keys"
  shows "run_ops beh [SubscribeOnce k l, Publish k a, Publish k b] (e, w) =
     (None, e\<lparr>eventsOnce := (eventsOnce e)(k := None)\<rparr>,
      invoke_in_order beh (listeners_at (events e) k) b
        (invoke_in_order beh
           (listeners_at (events e) k @ set_add l (listeners_at (eventsOnce e) k)) a w))"
  using assms(2)
  by (auto simp: once_def lookup_def emit_forEach forEach_no_throw [OF assms(1)] listeners_at_def
      split: option.splits)

text \<open>
  C7, as claimed: whatever the sequence of subscriptions and publishes, a one-shot
  listener fires once in total. Listener \<open>1\<close> is subscribed once, as a one-shot
  listener, before the one-shot listener \<open>0\<close>, which throws. The first publish
  invokes \<open>1\<close> and ends with the exception of \<open>0\<close>, before the one-shot set is
  cleared; the next publish invokes \<open>1\<close> again.
\<close>

theorem one_shot_refires_after_throw:
  "fst (run_ops first_throws [SubscribeOnce ''ev'' 1, SubscribeOnce ''ev'' 0, Publish ''ev'' []]
          (new_Emitter, [])) = Some (Throw Error ''boom'') \<and>
   snd (snd (emit first_throws ''ev'' []
     (snd (run_ops first_throws [SubscribeOnce ''ev'' 1, SubscribeOnce ''ev'' 0, Publish ''ev'' []]
          (new_Emitter, []))))) = [1, 1]"
  by (simp add: once_def emit_def invoke_all_def lookup_def Object_prototype_keys_def
      new_Emitter_def set_add_def first_throws_def)

text \<open>
  C7, amended: take any sequence of \<^verbatim>\<open>on\<close>, \<^verbatim>\<open>once\<close> and \<^verbatim>\<open>emit\<close> calls on a new hub,
  on keys that name no inherited member, with listeners none of which throws. Then
  every call returns, and what the listeners have done to the world is what the
  specified hub has them do: each publish invokes the persistent listeners of its
  key in subscription order, then the one-shot listeners of the key in subscription
  order, each once, and leaves the key without one-shot listeners, so that a one-shot
  listener is invoked by the first publish after its subscription and by no later
  one. The hub that is left stands for the specified one.
\<close>

theorem publish_order_and_one_shot:
  assumes "\<forall>l args w. fst (beh l args w) = None"
    and "set (map key_of ops) \<inter> set Object_prototype_keys = {}"
  shows "fst (run_ops beh ops (new_Emitter, w)) = None \<and>
         spec_run beh ops (spec_empty, w) =
           (hub_of (fst (snd (run_ops beh ops (new_Emitter, w)))),
            snd (snd (run_ops beh ops (new_Emitter, w)))) \<and>
         (\<forall>k. distinct (persistent (fst (spec_run beh ops (spec_empty, w))) k) \<and>
              distinct (oneshot (fst (spec_run beh ops (spec_empty, w))) k))"
proof -
  have d: "\<forall>k. distinct (persistent (fst (spec_empty, w)) k) \<and>
      distinct (oneshot (fst (spec_empty, w)) k)"
    by (simp add: spec_empty_def)
  from run_ops_refines [OF assms, of new_Emitter w] spec_run_distinct [OF d, of beh ops]
  show ?thesis by (simp add: hub_of_new)
qed

theorem publish_order_and_one_shot_witness:
  "(\<forall>l args w. fst (recorder l args w) = None) \<and>
   set (map key_of
     [Subscribe ''a'' 1, SubscribeOnce ''a'' 2, Subscribe ''a'' 3, SubscribeOnce ''a'' 2,
      Publish ''a'' [Num 1], Publish ''a'' [Num 2],
      SubscribeOnce ''g1'' 4, Publish ''g1'' [Num 3], Publish ''g1'' [Num 4]])
     \<inter> set Object_prototype_keys = {} \<and>
   fst (run_ops recorder
     [Subscribe ''a'' 1, SubscribeOnce ''a'' 2, Subscribe ''a'' 3, SubscribeOnce ''a'' 2,
      Publish ''a'' [Num 1], Publish ''a'' [Num 2],
      SubscribeOnce ''g1'' 4, Publish ''g1'' [Num 3], Publish ''g1'' [Num 4]]
     (new_Emitter, [])) = None \<and>
   snd (snd (run_ops recorder
     [Subscribe ''a'' 1, SubscribeOnce ''a'' 2, Subscribe ''a'' 3, SubscribeOnce ''a'' 2,
      Publish ''a'' [Num 1], Publish ''a'' [Num 2],
      SubscribeOnce ''g1'' 4, Publish ''g1'' [Num 3], Publish ''g1'' [Num 4]]
     (new_Emitter, []))) =
     [(1, [Num 1]), (3, [Num 1]), (2, [Num 1]), (1, [Num 2]), (3, [Num 2]), (4, [Num 3])] \<and>
   snd (spec_run recorder
     [Subscribe ''a'' 1, SubscribeOnce ''a'' 2, Subscribe ''a'' 3, SubscribeOnce ''a'' 2,
      Publish ''a'' [Num 1], Publish ''a'' [Num 2],
      SubscribeOnce ''g1'' 4, Publish ''g1'' [Num 3], Publish ''g1'' [Num 4]]
     (spec_empty, [])) =
     [(1, [Num 1]), (3, [Num 1]), (2, [Num 1]), (1, [Num 2]), (3, [Num 2]), (4, [Num 3])]"
  using publish_order_and_one_shot [of recorder
     "[Subscribe ''a'' 1, SubscribeOnce ''a'' 2, Subscribe ''a'' 3, SubscribeOnce ''a'' 2,
      Publish ''a'' [Num 1], Publish ''a'' [Num 2],
      SubscribeOnce ''g1'' 4, Publish ''g1'' [Num 3], Publish ''g1'' [Num 4]]" "[]"]
  by (simp add: on_def once_def emit_def invoke_all_def lookup_def Object_prototype_keys_def
      new_Emitter_def set_add_def recorder_def spec_empty_def hub_of_def listeners_at_def
      invoke_in_order_def subscribe_last_def)


section \<open>Inbound messages\<close>

lemma on_message_response:
  "d \<noteq> Null \<Longrightarrow> d \<noteq> Undefined \<Longrightarrow> get d ''method'' \<noteq> Str ''notify'' \<Longrightarrow>
   get d ''id'' = Str k \<Longrightarrow> on_message beh d st = emit beh k [d] st"
  by (simp add: on_message_def)

lemma on_message_notify:
  "get d ''method'' = Str ''notify'' \<Longrightarrow> get d ''params'' = Arr rs \<Longrightarrow>
   on_message beh d st = forEach (\<lambda>r. emit beh ''notify'' [r]) rs st"
  by (cases d) (auto simp: on_message_def)

text \<open>
  A response whose identifier has no subscriber and names no inherited member changes
  nothing and throws nothing.
\<close>

lemma on_message_unknown_id:
  "d \<noteq> Null \<Longrightarrow> d \<noteq> Undefined \<Longrightarrow> get d ''method'' \<noteq> Str ''notify'' \<Longrightarrow>
   get d ''id'' = Str k \<Longrightarrow> k \<notin> set Object_prototype_keys \<Longrightarrow>
   events e k = None \<Longrightarrow> eventsOnce e k = None \<Longrightarrow>
   on_message beh d (e, w) = (None, e, w)"
  by (simp add: on_message_response emit_no_listener)

lemma on_message_inherited_id:
  "d \<noteq> Null \<Longrightarrow> d \<noteq> Undefined \<Longrightarrow> get d ''method'' \<noteq> Str ''notify'' \<Longrightarrow>
   get d ''id'' = Str k \<Longrightarrow> k \<in> set Object_prototype_keys \<Longrightarrow> events e k = None \<Longrightarrow>
   on_message beh d (e, w) = (Some TypeError, e, w)"
  by (simp add: on_message_response emit_inherited)

text \<open>
  C6. An inbound message that is not a notification is to be published under its own
  identifier, and to be a no-op without error when that identifier has no
  subscriber. The response \<^verbatim>\<open>{"id": "toString", "result": null}\<close>, received by a
  client on whose hub nothing is subscribed, throws a \<^verbatim>\<open>TypeError\<close> out of the message
  handler: the read \<^verbatim>\<open>this.#events["toString"]\<close> finds the inherited
  \<^verbatim>\<open>Object.prototype.toString\<close>, which has no \<^verbatim>\<open>forEach\<close>.
\<close>

theorem inherited_id_throws:
  "on_message recorder (Obj [(''id'', Str ''toString''), (''result'', Null)]) (new_Emitter, []) =
     (Some TypeError, new_Emitter, [])"
  by (simp add: on_message_def emit_def invoke_all_def lookup_def Object_prototype_keys_def
      new_Emitter_def)

section \<open>Re-assertion on open, and \<^verbatim>\<open>wait\<close>\<close>

text \<open>
  The numbering is sound from \<^verbatim>\<open>connect\<close> on and stays so under every step of the
  client.
\<close>

lemma wf_new: "well_formed (connect (new_Surreal tok))"
  by (simp add: well_formed_def connect_def new_Surreal_def)

lemma wf_init: "well_formed k \<Longrightarrow> well_formed (init k)"
  by (auto simp: well_formed_def init_def)

lemma wf_set_token: "well_formed k \<Longrightarrow> well_formed (set_token tok k)"
  by (auto simp: well_formed_def set_token_def init_def Let_def)

lemma wf_transport_open: "well_formed k \<Longrightarrow> well_formed (fst (snd (transport_open beh (k, w))))"
  by (auto simp: well_formed_def transport_open_def on_open_def init_def Let_def
      split: prod.splits option.splits)

lemma wf_callback_start:
  "well_formed k \<Longrightarrow> p < fresh k \<Longrightarrow> well_formed (callback_start p cid k)"
  by (auto simp: well_formed_def callback_start_def finish_def Let_def
      split: option.splits attempt.splits)

lemma wf_callback_send:
  "well_formed k \<Longrightarrow> p < fresh k \<Longrightarrow> well_formed (callback_send p k)"
  by (auto simp: well_formed_def callback_send_def finish_def
      split: option.splits attempt.splits settlement.splits)

lemma wf_callback_settle:
  "well_formed k \<Longrightarrow> p < fresh k \<Longrightarrow> well_formed (callback_settle p res k)"
  by (auto simp: well_formed_def callback_settle_def finish_def
      split: option.splits attempt.splits)

lemma wait_run_resolved [simp]: "wait_run Wait_resolved ks = Wait_resolved"
  by (induction ks) simp_all

lemma wait_run_rejected [simp]: "wait_run (Wait_rejected ex) ks = Wait_rejected ex"
  by (induction ks) simp_all

lemma wait_attempted_settled:
  "wait_run (Wait_attempted (Some q)) ks = Wait_resolved \<Longrightarrow>
   \<exists>mid ka post. ks = mid @ ka # post \<and> promises ka q = Some Fulfilled"
proof (induction ks)
  case Nil
  then show ?case by simp
next
  case (Cons k ks)
  show ?case
  proof (cases "promises k q")
    case None
    with Cons.prems have "wait_run (Wait_attempted (Some q)) ks = Wait_resolved" by simp
    from Cons.IH [OF this] obtain mid ka post
      where "ks = mid @ ka # post" "promises ka q = Some Fulfilled" by blast
    then have "k # ks = (k # mid) @ ka # post \<and> promises ka q = Some Fulfilled" by simp
    then show ?thesis by blast
  next
    case (Some how)
    show ?thesis
    proof (cases how)
      case Fulfilled
      with Some have "k # ks = [] @ k # ks \<and> promises k q = Some Fulfilled" by simp
      then show ?thesis by blast
    next
      case (Rejected ex)
      with Some Cons.prems show ?thesis by simp
    qed
  qed
qed

lemma wait_ready_settled:
  "wait_run (Wait_ready r) ks = Wait_resolved \<Longrightarrow>
   \<exists>pre kr post. ks = pre @ kr # post \<and> promises kr r = Some Fulfilled \<and>
     (attempted kr = None \<or>
      (\<exists>q mid ka post'. attempted kr = Some q \<and> post = mid @ ka # post' \<and>
         promises ka q = Some Fulfilled))"
proof (induction ks)
  case Nil
  then show ?case by simp
next
  case (Cons k ks)
  show ?case
  proof (cases "promises k r")
    case None
    with Cons.prems have "wait_run (Wait_ready r) ks = Wait_resolved" by simp
    from Cons.IH [OF this] obtain pre kr post where
      a: "ks = pre @ kr # post" "promises kr r = Some Fulfilled"
        "attempted kr = None \<or>
           (\<exists>q mid ka post'. attempted kr = Some q \<and> post = mid @ ka # post' \<and>
              promises ka q = Some Fulfilled)" by blast
    from a(1) have "k # ks = (k # pre) @ kr # post" by simp
    with a(2,3) show ?thesis by blast
  next
    case (Some how)
    show ?thesis
    proof (cases how)
      case Fulfilled
      with Some Cons.prems have run: "wait_run (Wait_attempted (attempted k)) ks = Wait_resolved"
        by simp
      have "attempted k = None \<or>
           (\<exists>q mid ka post'. attempted k = Some q \<and> ks = mid @ ka # post' \<and>
              promises ka q = Some Fulfilled)"
      proof (cases "attempted k")
        case None
        then show ?thesis by simp
      next
        case (Some q)
        with run wait_attempted_settled [of q ks] show ?thesis by simp
      qed
      moreover have "k # ks = [] @ k # ks" by simp
      moreover from Some Fulfilled have "promises k r = Some Fulfilled" by simp
      ultimately show ?thesis by blast
    next
      case (Rejected ex)
      with Some Cons.prems show ?thesis by simp
    qed
  qed
qed

lemma wait_only_after:
  "wait_run (wait_call k0) ks = Wait_resolved \<Longrightarrow>
   \<exists>pre kr post. ks = pre @ kr # post \<and> promises kr (ready k0) = Some Fulfilled \<and>
     (attempted kr = None \<or>
      (\<exists>q mid ka post'. attempted kr = Some q \<and> post = mid @ ka # post' \<and>
         promises ka q = Some Fulfilled))"
proof (cases "ws (cl k0)")
  case None
  assume "wait_run (wait_call k0) ks = Wait_resolved"
  with None show ?thesis by (simp add: wait_call_def)
next
  case (Some s)
  assume "wait_run (wait_call k0) ks = Wait_resolved"
  with Some have "wait_run (Wait_ready (ready k0)) ks = Wait_resolved"
    by (simp add: wait_call_def)
  then show ?thesis by (rule wait_ready_settled)
qed


text \<open>
  On a client with an open transport the three stretches of the callback do to
  \<^verbatim>\<open>#ws\<close> and \<^verbatim>\<open>#token\<close> what \<open>init_callback\<close> does in one go.
\<close>

lemma init_callback_refined:
  assumes "ws (cl k) = Some s" and "promises k (ready k) = Some Fulfilled"
    and "attempts k p = Some Queued"
  shows "cl (callback_settle p res (callback_send p (callback_start p cid k))) =
           init_callback cid res (cl k)"
  using assms
  by (simp add: callback_start_def callback_send_def callback_settle_def finish_def
      init_callback_def authenticate_def send_connected await_def checked_result_def
      outputHandlerError_def Let_def split: result.splits)

lemma open_queues_one_attempt:
  assumes "well_formed k"
  shows "attempted (fst (snd (transport_open beh (k, w)))) = Some (fresh k) \<and>
         attempts (fst (snd (transport_open beh (k, w)))) = (attempts k)(fresh k \<mapsto> Queued) \<and>
         promises (fst (snd (transport_open beh (k, w)))) = (promises k)(ready k \<mapsto> Fulfilled) \<and>
         promises (fst (snd (transport_open beh (k, w)))) (fresh k) = None \<and>
         cl (fst (snd (transport_open beh (k, w)))) = cl k \<and>
         ready (fst (snd (transport_open beh (k, w)))) = ready k \<and>
         ws_status (fst (snd (transport_open beh (k, w)))) = CONNECTED"
  using assms
  by (auto simp: transport_open_def on_open_def init_def well_formed_def Let_def
      split: prod.splits option.splits)

lemma open_publishes:
  "(fst (transport_open beh (k, w)), em (fst (snd (transport_open beh (k, w)))),
    snd (snd (transport_open beh (k, w)))) =
   (case emit beh ''open'' [] (em k, w) of
      (Some ex, e1, w1) \<Rightarrow> (Some ex, e1, w1)
    | (None, e1, w1) \<Rightarrow> emit beh ''opened'' [] (e1, w1))"
  by (auto simp: transport_open_def on_open_def init_def Let_def
      split: prod.splits option.splits)


lemma attempt_starts:
  assumes "ws (cl k1) = Some s" and "truthy (token (cl k1))"
    and "attempts k1 p = Some Queued" and "promises k1 (ready k1) = Some Fulfilled"
  shows "callback_send p (callback_start p cid k1) =
           k1\<lparr>cl := (cl k1)\<lparr>ws := Some (s\<lparr>sent := sent s @
                  [Obj [(''id'', Str cid), (''method'', Str ''authenticate''),
                        (''params'', Arr [token (cl k1)])]]\<rparr>)\<rparr>,
              attempts := (attempts k1)(p \<mapsto> AwaitsResponse cid)\<rparr>"
  using assms
  by (simp add: callback_start_def callback_send_def socket_send_def Let_def)

lemma attempt_settles:
  "attempts k2 p = Some (AwaitsResponse cid) \<Longrightarrow>
   callback_settle p res k2 =
     k2\<lparr>promises := (promises k2)(p \<mapsto> Fulfilled), attempts := (attempts k2)(p := None)\<rparr>"
  by (simp add: callback_settle_def finish_def swallowed_def split: sum.splits)

lemma attempt_without_token:
  assumes "\<not> truthy (token (cl k1))" and "attempts k1 p = Some Queued"
  shows "callback_start p cid k1 =
           k1\<lparr>promises := (promises k1)(p \<mapsto> Fulfilled), attempts := (attempts k1)(p := None)\<rparr>"
  using assms by (simp add: callback_start_def finish_def)

lemmas sample_defs = after_open_def attempt_in_flight_def attempt_rejected_def token_cleared_def
  opened_without_token_def
  transport_open_def on_open_def init_def connect_def new_Surreal_def callback_start_def
  callback_send_def callback_settle_def finish_def swallowed_def set_token_def status_def
  wait_call_def emit_def invoke_all_def lookup_def Object_prototype_keys_def new_Emitter_def
  socket_send_def outputHandlerError_def well_formed_def Let_def

text \<open>
  C8, as claimed: \<^verbatim>\<open>wait()\<close> resolves only after the attempt of the open event has
  settled. The transport opens while the token \<^verbatim>\<open>"a"\<close> is set; the attempt of that
  event, promise \<open>1\<close>, sends its \<^verbatim>\<open>authenticate\<close> call and waits for the answer. The
  caller then assigns \<^verbatim>\<open>undefined\<close> to \<^verbatim>\<open>token\<close>: the setter calls \<^verbatim>\<open>#init\<close>, which puts
  promise \<open>2\<close> into \<^verbatim>\<open>#attempted\<close>, and the callback of that one returns at
  \<^verbatim>\<open>if (!this.#token) return\<close>. A \<^verbatim>\<open>wait()\<close> called now resolves, with the attempt of
  the open event still pending.
\<close>

theorem wait_resolves_while_open_attempt_pending:
  "attempted after_open = Some 1 \<and>
   attempts token_cleared 1 = Some (AwaitsResponse ''g1'') \<and>
   promises token_cleared 1 = None \<and>
   wait_run (wait_call token_cleared) [token_cleared, token_cleared] = Wait_resolved"
  by (simp add: sample_defs)

text \<open>
  C8, amended: at every open event of the transport of a connected client, the open
  handler queues exactly one attempt, pending, and publishes \<^verbatim>\<open>open\<close> and then
  \<^verbatim>\<open>opened\<close> as the hub does for any publish, whatever becomes of the attempt. If
  the token is truthy the attempt, when it runs, sends exactly one \<^verbatim>\<open>authenticate\<close>
  call with that token, and however the peer answers, the error variant included,
  the promise of the attempt is fulfilled and nothing else changes; a \<^verbatim>\<open>wait()\<close> of
  that time stays pending until then and resolves then. If the token is not truthy
  the attempt sends nothing and its promise is fulfilled at once. And in every run,
  \<^verbatim>\<open>wait()\<close> resolves only after a state in which the \<^verbatim>\<open>ready\<close> promise it read is
  fulfilled, and after a later state in which the promise that \<^verbatim>\<open>#attempted\<close> held
  in the former, the latest attempt, is fulfilled.
\<close>

theorem reassertion_on_open:
  assumes "ws (cl k) = Some s" and "well_formed k"
  shows "let k1 = fst (snd (transport_open beh (k, w)));
             p = fresh k;
             k2 = callback_send p (callback_start p cid k1);
             k3 = callback_settle p res k2
         in attempted k1 = Some p \<and> attempts k1 = (attempts k)(p \<mapsto> Queued) \<and>
            promises k1 p = None \<and>
            (fst (transport_open beh (k, w)), em k1, snd (snd (transport_open beh (k, w)))) =
              (case emit beh ''open'' [] (em k, w) of
                 (Some ex, e1, w1) \<Rightarrow> (Some ex, e1, w1)
               | (None, e1, w1) \<Rightarrow> emit beh ''opened'' [] (e1, w1)) \<and>
            (if truthy (token (cl k))
             then cl k2 = (cl k)\<lparr>ws := Some (s\<lparr>sent := sent s @
                      [Obj [(''id'', Str cid), (''method'', Str ''authenticate''),
                            (''params'', Arr [token (cl k)])]]\<rparr>)\<rparr> \<and>
                  attempts k2 = (attempts k)(p \<mapsto> AwaitsResponse cid) \<and>
                  promises k2 p = None \<and>
                  promises k3 p = Some Fulfilled \<and> attempts k3 = (attempts k)(p := None) \<and>
                  cl k3 = cl k2 \<and> em k3 = em k1 \<and>
                  wait_run (wait_call k1) [k1, k2, k2] = Wait_attempted (Some p) \<and>
                  wait_run (wait_call k1) [k1, k2, k3] = Wait_resolved
             else cl k2 = cl k \<and> promises k2 p = Some Fulfilled \<and>
                  attempts k2 = (attempts k)(p := None) \<and>
                  wait_run (wait_call k1) [k1, k2] = Wait_resolved) \<and>
            (\<forall>k0 ks. wait_run (wait_call k0) ks = Wait_resolved \<longrightarrow>
               (\<exists>pre kr post. ks = pre @ kr # post \<and>
                  promises kr (ready k0) = Some Fulfilled \<and>
                  (attempted kr = None \<or>
                   (\<exists>q mid ka post'. attempted kr = Some q \<and> post = mid @ ka # post' \<and>
                      promises ka q = Some Fulfilled))))"
proof -
  define k1 where "k1 = fst (snd (transport_open beh (k, w)))"
  define p where "p = fresh k"
  define k2 where "k2 = callback_send p (callback_start p cid k1)"
  define k3 where "k3 = callback_settle p res k2"
  have o: "attempted k1 = Some p" "attempts k1 = (attempts k)(p \<mapsto> Queued)"
    "promises k1 = (promises k)(ready k \<mapsto> Fulfilled)" "promises k1 p = None"
    "cl k1 = cl k" "ready k1 = ready k"
    unfolding k1_def p_def
    using open_queues_one_attempt [OF assms(2), of beh w] by blast+
  have part1: "attempted k1 = Some p \<and> attempts k1 = (attempts k)(p \<mapsto> Queued) \<and>
      promises k1 p = None" using o by simp
  have part2: "(fst (transport_open beh (k, w)), em k1, snd (snd (transport_open beh (k, w)))) =
              (case emit beh ''open'' [] (em k, w) of
                 (Some ex, e1, w1) \<Rightarrow> (Some ex, e1, w1)
               | (None, e1, w1) \<Rightarrow> emit beh ''opened'' [] (e1, w1))"
    unfolding k1_def by (rule open_publishes)
  have call: "wait_call k1 = Wait_ready (ready k)"
    using assms(1) o by (simp add: wait_call_def)
  have part3: "if truthy (token (cl k))
             then cl k2 = (cl k)\<lparr>ws := Some (s\<lparr>sent := sent s @
                      [Obj [(''id'', Str cid), (''method'', Str ''authenticate''),
                            (''params'', Arr [token (cl k)])]]\<rparr>)\<rparr> \<and>
                  attempts k2 = (attempts k)(p \<mapsto> AwaitsResponse cid) \<and>
                  promises k2 p = None \<and>
                  promises k3 p = Some Fulfilled \<and> attempts k3 = (attempts k)(p := None) \<and>
                  cl k3 = cl k2 \<and> em k3 = em k1 \<and>
                  wait_run (wait_call k1) [k1, k2, k2] = Wait_attempted (Some p) \<and>
                  wait_run (wait_call k1) [k1, k2, k3] = Wait_resolved
             else cl k2 = cl k \<and> promises k2 p = Some Fulfilled \<and>
                  attempts k2 = (attempts k)(p := None) \<and>
                  wait_run (wait_call k1) [k1, k2] = Wait_resolved"
  proof (cases "truthy (token (cl k))")
    case True
    from o assms True have pre: "ws (cl k1) = Some s" "truthy (token (cl k1))"
      "attempts k1 p = Some Queued" "promises k1 (ready k1) = Some Fulfilled"
      by simp_all
    have k2: "k2 = k1\<lparr>cl := (cl k1)\<lparr>ws := Some (s\<lparr>sent := sent s @
                  [Obj [(''id'', Str cid), (''method'', Str ''authenticate''),
                        (''params'', Arr [token (cl k1)])]]\<rparr>)\<rparr>,
              attempts := (attempts k1)(p \<mapsto> AwaitsResponse cid)\<rparr>"
      unfolding k2_def by (rule attempt_starts [OF pre])
    then have a2: "attempts k2 p = Some (AwaitsResponse cid)" by simp
    have k3: "k3 = k2\<lparr>promises := (promises k2)(p \<mapsto> Fulfilled),
        attempts := (attempts k2)(p := None)\<rparr>"
      unfolding k3_def by (rule attempt_settles [OF a2])
    have s2: "cl k2 = (cl k)\<lparr>ws := Some (s\<lparr>sent := sent s @
                      [Obj [(''id'', Str cid), (''method'', Str ''authenticate''),
                            (''params'', Arr [token (cl k)])]]\<rparr>)\<rparr> \<and>
        attempts k2 = (attempts k)(p \<mapsto> AwaitsResponse cid) \<and> promises k2 p = None"
      using k2 o by simp
    have s3: "promises k3 p = Some Fulfilled \<and> attempts k3 = (attempts k)(p := None) \<and>
        cl k3 = cl k2 \<and> em k3 = em k1"
      using k3 k2 o by simp
    have r2: "promises k2 (ready k) = Some Fulfilled" "attempted k2 = Some p"
      "promises k2 p = None"
      using k2 o by simp_all
    have s5: "wait_run (wait_call k1) [k1, k2, k2] = Wait_attempted (Some p)"
      using call o r2 by simp
    have s6: "wait_run (wait_call k1) [k1, k2, k3] = Wait_resolved"
      using call o r2 s3 by simp
    from True s2 s3 s5 s6 show ?thesis by simp
  next
    case False
    from o False have pre: "\<not> truthy (token (cl k1))" "attempts k1 p = Some Queued"
      by simp_all
    have st: "callback_start p cid k1 =
        k1\<lparr>promises := (promises k1)(p \<mapsto> Fulfilled), attempts := (attempts k1)(p := None)\<rparr>"
      by (rule attempt_without_token [OF pre])
    have k2: "k2 = k1\<lparr>promises := (promises k1)(p \<mapsto> Fulfilled),
        attempts := (attempts k1)(p := None)\<rparr>"
      unfolding k2_def st by (simp add: callback_send_def)
    have f2: "cl k2 = cl k \<and> promises k2 p = Some Fulfilled \<and>
        attempts k2 = (attempts k)(p := None)"
      using k2 o by simp
    have f3: "wait_run (wait_call k1) [k1, k2] = Wait_resolved"
      using call o k2 by simp
    from False f2 f3 show ?thesis by simp
  qed
  have part4: "\<forall>k0 ks. wait_run (wait_call k0) ks = Wait_resolved \<longrightarrow>
               (\<exists>pre kr post. ks = pre @ kr # post \<and>
                  promises kr (ready k0) = Some Fulfilled \<and>
                  (attempted kr = None \<or>
                   (\<exists>q mid ka post'. attempted kr = Some q \<and> post = mid @ ka # post' \<and>
                      promises ka q = Some Fulfilled)))"
    using wait_only_after by blast
  from part1 part2 part3 part4
  show ?thesis
    unfolding Let_def k1_def [symmetric] p_def [symmetric] k2_def [symmetric] k3_def [symmetric]
    by blast
qed

theorem reassertion_on_open_witness:
  "ws (cl (connect (new_Surreal (Str ''a'')))) = Some \<lparr>sent = []\<rparr> \<and>
   truthy (token (cl (connect (new_Surreal (Str ''a''))))) \<and>
   well_formed (connect (new_Surreal (Str ''a''))) \<and>
   attempted after_open = Some 1 \<and> attempts after_open 1 = Some Queued \<and>
   ws (cl attempt_in_flight) =
     Some \<lparr>sent = [Obj [(''id'', Str ''g1''), (''method'', Str ''authenticate''),
                        (''params'', Arr [Str ''a''])]]\<rparr> \<and>
   promises attempt_rejected 1 = Some Fulfilled \<and>
   wait_run (wait_call after_open) [after_open, attempt_in_flight, attempt_in_flight] =
     Wait_attempted (Some 1) \<and>
   wait_run (wait_call after_open) [after_open, attempt_in_flight, attempt_rejected] =
     Wait_resolved \<and>
   ws (cl (connect (new_Surreal Undefined))) = Some \<lparr>sent = []\<rparr> \<and>
   \<not> truthy (token (cl (connect (new_Surreal Undefined)))) \<and>
   well_formed (connect (new_Surreal Undefined)) \<and>
   ws (cl opened_without_token) = Some \<lparr>sent = []\<rparr> \<and>
   promises opened_without_token 1 = Some Fulfilled"
  using reassertion_on_open [of "connect (new_Surreal (Str ''a''))" "\<lparr>sent = []\<rparr>" recorder "[]"
      "''g1''" "ResultErr ''bad''"]
    reassertion_on_open [of "connect (new_Surreal Undefined)" "\<lparr>sent = []\<rparr>" recorder "[]"
      "''g1''" "ResultErr ''bad''"]
  by (simp add: sample_defs)

end
